theory Spec2Isabelle
  imports Main "HOL-Library.Sublist" "HOL-Library.AList"
begin

section \<open>Strings\<close>

text \<open>
  Python \<open>str\<close> values are modelled as \<open>string\<close> (lists of 8-bit characters), so the
  development covers ASCII text. \<open>s.endswith(t)\<close> is \<open>suffix t s\<close>, \<open>s.startswith(t)\<close> is
  \<open>prefix t s\<close> and \<open>t in s\<close> is \<open>sublist t s\<close>.
\<close>

definition lower_char :: "char \<Rightarrow> char" where
  "lower_char c =
     (if 65 \<le> (of_char c :: nat) \<and> (of_char c :: nat) \<le> 90
      then char_of ((of_char c :: nat) + 32) else c)"

definition lower :: "string \<Rightarrow> string" where
  "lower s = map lower_char s"

text \<open>\<open>s.replace('\\', '/')\<close>: every backslash (code 0x5C) becomes a forward slash.\<close>

definition replace_backslash :: "string \<Rightarrow> string" where
  "replace_backslash s = map (\<lambda>c. if c = CHR 0x5C then CHR ''/'' else c) s"

definition newline :: string where
  "newline = [CHR 0x0A]"

definition dquote :: string where
  "dquote = [CHR 0x22]"

definition squote :: string where
  "squote = [CHR 0x27]"

text \<open>
  \<open>s.strip()\<close> removes the white space at both ends: the characters of \<open>str.isspace\<close>,
  which below 256 are the ASCII ones, the next-line character and the no-break space.
\<close>

definition is_space :: "char \<Rightarrow> bool" where
  "is_space c = (c \<in> set [CHR 0x09, CHR 0x0A, CHR 0x0B, CHR 0x0C, CHR 0x0D,
                             CHR 0x1C, CHR 0x1D, CHR 0x1E, CHR 0x1F, CHR 0x20,
                             CHR 0x85, CHR 0xA0])"

definition strip :: "string \<Rightarrow> string" where
  "strip s = rev (dropWhile is_space (rev (dropWhile is_space s)))"

text \<open>\<open>str(n)\<close> for a natural number.\<close>

fun str_nat :: "nat \<Rightarrow> string" where
  "str_nat n = (if n < 10 then [char_of (48 + n)] else str_nat (n div 10) @ [char_of (48 + n mod 10)])"

declare str_nat.simps [simp del]

section \<open>The host: path functions and the file system\<close>

text \<open>
  The converter talks to its host through \<open>os.path\<close>, \<open>os.walk\<close>, \<open>open\<close> and
  \<open>pathlib\<close>. These are taken as a parameter, so every theorem holds for any host
  (POSIX or Windows path conventions, any directory tree). What the file system answers
  may depend on what the converter has created so far, so each query receives the list of
  file-system effects performed up to then. Reading, creating and writing are assumed not
  to fail with an operating-system error; the decoding failure that the source handles is
  modelled (\<open>read_utf8\<close> returns \<open>None\<close>).
\<close>

datatype fs_event = MakeDirs string | WriteFile string string

datatype exn = ValueError string

text \<open>
  \<open>os.path\<close>: \<open>basename\<close>, \<open>dirname\<close>, \<open>splitext\<close>, \<open>join\<close>, \<open>relpath\<close>, and
  \<open>split_sep p\<close> for \<open>p.split(os.sep)\<close>. File system: \<open>walk\<close> lists what \<open>os.walk\<close>
  yields, as pairs of a directory and its file names in traversal order; \<open>glob\<close> is
  \<open>Path.glob\<close>. \<open>pathlib\<close>: a \<open>Path\<close> is represented by its string; \<open>path_of s\<close> is
  \<open>str(Path(s))\<close>, \<open>path_div\<close> is the operator \<open>/\<close>, and \<open>relative_to\<close> raises
  \<open>ValueError\<close> when the path is not below the other.
\<close>

record host =
  basename :: "string \<Rightarrow> string"
  dirname :: "string \<Rightarrow> string"
  splitext :: "string \<Rightarrow> string \<times> string"
  join :: "string \<Rightarrow> string \<Rightarrow> string"
  relpath :: "string \<Rightarrow> string \<Rightarrow> string"
  split_sep :: "string \<Rightarrow> string list"
  walk :: "fs_event list \<Rightarrow> string \<Rightarrow> (string \<times> string list) list"
  read_utf8 :: "fs_event list \<Rightarrow> string \<Rightarrow> string option"
  read_latin1 :: "fs_event list \<Rightarrow> string \<Rightarrow> string"
  path_exists :: "fs_event list \<Rightarrow> string \<Rightarrow> bool"
  glob :: "fs_event list \<Rightarrow> string \<Rightarrow> string \<Rightarrow> string list"
  path_of :: "string \<Rightarrow> string"
  path_div :: "string \<Rightarrow> string \<Rightarrow> string"
  relative_to :: "string \<Rightarrow> string \<Rightarrow> exn + string"
  with_suffix :: "string \<Rightarrow> string \<Rightarrow> string"
  path_name :: "string \<Rightarrow> string"
  path_stem :: "string \<Rightarrow> string"

section \<open>The converter instance\<close>

text \<open>
  \<open>UnityGodotConverter\<close> holds the property table and two caches. The state below adds
  what the calls do to the outside: the lines printed, the file-system effects, and a
  counter of the directory walks started by the GUID resolver.
\<close>

definition property_mappings :: "(string \<times> string) list" where
  "property_mappings =
     [(''_MainTex'', ''albedo_texture''),
      (''_Color'', ''albedo_color''),
      (''_Metallic'', ''metallic''),
      (''_Glossiness'', ''roughness''),
      (''_BumpMap'', ''normal_texture''),
      (''_EmissionColor'', ''emission''),
      (''_EmissionMap'', ''emission_texture''),
      (''_OcclusionMap'', ''ao_texture'')]"

record converter =
  unity_texture_cache :: "string \<rightharpoonup> string option"
  godot_resource_cache :: "string \<rightharpoonup> string option"
  meta_walks :: nat
  stdout :: "string list"
  fs_log :: "fs_event list"

definition print :: "string \<Rightarrow> converter \<Rightarrow> converter" where
  "print line st = st\<lparr>stdout := stdout st @ [line]\<rparr>"

section \<open>GUID resolver\<close>

text \<open>The inner loop of \<open>find_meta_file_by_guid\<close>: the files of one directory.\<close>

fun scan_meta_files :: "host \<Rightarrow> fs_event list \<Rightarrow> string \<Rightarrow> string \<Rightarrow> string list \<Rightarrow> string option" where
  "scan_meta_files h fs root guid [] = None"
| "scan_meta_files h fs root guid (file # files) =
     (if suffix ''.meta'' file then
        (let meta_path = join h root file in
         case read_utf8 h fs meta_path of
           None \<Rightarrow> scan_meta_files h fs root guid files
         | Some content \<Rightarrow>
             if sublist (''guid: '' @ guid) content then
               (let asset_path = take (length meta_path - 5) meta_path in
                if path_exists h fs asset_path then Some asset_path
                else scan_meta_files h fs root guid files)
             else scan_meta_files h fs root guid files)
      else scan_meta_files h fs root guid files)"

text \<open>The outer loop: the directories that \<open>os.walk\<close> yields, in its order.\<close>

fun scan_meta_tree :: "host \<Rightarrow> fs_event list \<Rightarrow> string \<Rightarrow> (string \<times> string list) list \<Rightarrow> string option" where
  "scan_meta_tree h fs guid [] = None"
| "scan_meta_tree h fs guid ((root, files) # rest) =
     (case scan_meta_files h fs root guid files of
        Some asset_path \<Rightarrow> Some asset_path
      | None \<Rightarrow> scan_meta_tree h fs guid rest)"

definition find_meta_file_by_guid ::
  "host \<Rightarrow> converter \<Rightarrow> string \<Rightarrow> string \<Rightarrow> string option \<times> converter" where
  "find_meta_file_by_guid h st project_root guid =
     (let cache_key = project_root @ '':'' @ guid in
      case unity_texture_cache st cache_key of
        Some cached \<Rightarrow> (cached, st)
      | None \<Rightarrow>
          (let st1 = print (''Searching for GUID: '' @ guid) st;
               st2 = st1\<lparr>meta_walks := meta_walks st1 + 1\<rparr>;
               found = scan_meta_tree h (fs_log st2) guid (walk h (fs_log st2) project_root)
           in (found, st2\<lparr>unity_texture_cache := (unity_texture_cache st2)(cache_key \<mapsto> found)\<rparr>)))"

section \<open>Resource locator\<close>

text \<open>The innermost loop of \<open>find_godot_resource\<close>: the files of one directory.\<close>

fun match_files :: "host \<Rightarrow> string \<Rightarrow> string \<Rightarrow> string \<Rightarrow> string \<Rightarrow> string list \<Rightarrow> string option" where
  "match_files h godot_project_root base_name ext root [] = None"
| "match_files h godot_project_root base_name ext root (file # files) =
     (if lower file = lower base_name @ lower ext then
        (let full_path = join h root file;
             rel_path = relpath h full_path godot_project_root;
             godot_path = ''res://'' @ replace_backslash rel_path
         in Some godot_path)
      else match_files h godot_project_root base_name ext root files)"

fun match_tree :: "host \<Rightarrow> string \<Rightarrow> string \<Rightarrow> string \<Rightarrow> (string \<times> string list) list \<Rightarrow> string option" where
  "match_tree h godot_project_root base_name ext [] = None"
| "match_tree h godot_project_root base_name ext ((root, files) # rest) =
     (case match_files h godot_project_root base_name ext root files of
        Some godot_path \<Rightarrow> Some godot_path
      | None \<Rightarrow> match_tree h godot_project_root base_name ext rest)"

text \<open>The loop over the candidate extensions; each one walks the whole tree again.\<close>

fun try_extensions :: "host \<Rightarrow> fs_event list \<Rightarrow> string \<Rightarrow> string \<Rightarrow> string list \<Rightarrow> string option" where
  "try_extensions h fs godot_project_root base_name [] = None"
| "try_extensions h fs godot_project_root base_name (ext # extensions) =
     (case match_tree h godot_project_root base_name ext (walk h fs godot_project_root) of
        Some godot_path \<Rightarrow> Some godot_path
      | None \<Rightarrow> try_extensions h fs godot_project_root base_name extensions)"

definition find_godot_resource ::
  "host \<Rightarrow> converter \<Rightarrow> string \<Rightarrow> string \<Rightarrow> string option \<times> converter" where
  "find_godot_resource h st godot_project_root unity_path =
     (if unity_path = [] then (None, st)
      else
        (let cache_key = godot_project_root @ '':'' @ unity_path in
         case godot_resource_cache st cache_key of
           Some cached \<Rightarrow> (cached, st)
         | None \<Rightarrow>
             (let base_name = fst (splitext h (basename h unity_path));
                  extensions = (if suffix ''.psd'' (lower unity_path) then [''.png'']
                                else [snd (splitext h unity_path), ''.png'']);
                  found = try_extensions h (fs_log st) godot_project_root base_name extensions
              in (found, st\<lparr>godot_resource_cache := (godot_resource_cache st)(cache_key \<mapsto> found)\<rparr>))))"

section \<open>Material records\<close>

text \<open>
  Python floats are binary floating-point numbers. Their arithmetic and their printing
  are not modelled: the three operations the converter uses are a parameter. The literal
  \<open>0.5\<close> of the source is \<open>float_of_str F ''0.5''\<close>, and likewise \<open>1.0\<close>.
\<close>

record 'f float_ops =
  float_of_str :: "string \<Rightarrow> 'f"
  float_sub :: "'f \<Rightarrow> 'f \<Rightarrow> 'f"
  float_str :: "'f \<Rightarrow> string"

record texture_ref =
  ref_fileID :: string
  ref_guid :: string

record 'f rgba =
  red :: 'f
  green :: 'f
  blue :: 'f
  alpha :: 'f

record 'f material =
  material_name :: string
  source_path :: string
  textures :: "string \<rightharpoonup> texture_ref"
  floats :: "string \<rightharpoonup> 'f"
  colors :: "string \<rightharpoonup> 'f rgba"
  shader_keywords :: string

section \<open>Material translator\<close>

text \<open>
  \<open>convert_color\<close> on the dictionaries the analyzer builds, which always hold the four
  components; its branch for other values is not reachable from them.
\<close>

definition convert_color :: "'f float_ops \<Rightarrow> 'f rgba \<Rightarrow> string" where
  "convert_color F unity_color =
     ''Color('' @ float_str F (red unity_color) @ '', '' @ float_str F (green unity_color) @ '', ''
       @ float_str F (blue unity_color) @ '', '' @ float_str F (alpha unity_color) @ '')''"

text \<open>The lines written before the property loop.\<close>

definition transparency_lines :: "'f float_ops \<Rightarrow> 'f material \<Rightarrow> string" where
  "transparency_lines F unity_material =
     (let keywords = shader_keywords unity_material in
      if sublist ''_ALPHATEST_ON'' keywords then
        ''transparency = 1'' @ newline
        @ ''alpha_scissor_threshold = ''
        @ float_str F (case floats unity_material ''_Cutoff'' of
                         Some cutoff \<Rightarrow> cutoff | None \<Rightarrow> float_of_str F ''0.5'') @ newline
        @ ''alpha_hash_scale = 1.0'' @ newline
      else if sublist ''_ALPHABLEND_ON'' keywords \<or> sublist ''_ALPHAPREMULTIPLY_ON'' keywords then
        ''transparency = 1'' @ newline
        @ ''blend_mode = 1'' @ newline
      else [])"

text \<open>The body of the property loop, for one row of the property table.\<close>

definition translate_property ::
  "host \<Rightarrow> 'f float_ops \<Rightarrow> 'f material \<Rightarrow> string \<Rightarrow> string \<Rightarrow> string \<Rightarrow> string \<Rightarrow>
   string \<times> converter \<Rightarrow> string \<times> converter" where
  "translate_property h F unity_material unity_project_root godot_project_root unity_prop godot_prop acc =
     (case acc of (tres_content, st) \<Rightarrow>
      (case textures unity_material unity_prop of
         Some tex_info \<Rightarrow>
           (case find_meta_file_by_guid h st unity_project_root (ref_guid tex_info) of
              (None, st1) \<Rightarrow> (tres_content, st1)
            | (Some unity_path, st1) \<Rightarrow>
                if unity_path = [] then (tres_content, st1)
                else
                  (case find_godot_resource h st1 godot_project_root unity_path of
                     (Some godot_path, st2) \<Rightarrow>
                       if godot_path = [] then
                         (tres_content,
                          print (''  Warning: Could not find Godot resource for '' @ basename h unity_path) st2)
                       else
                         (tres_content @ godot_prop @ '' = ExtResource('' @ dquote @ godot_path @ dquote @ '')'' @ newline,
                          print (''  Found texture: '' @ basename h unity_path @ '' -> '' @ godot_path) st2)
                   | (None, st2) \<Rightarrow>
                       (tres_content,
                        print (''  Warning: Could not find Godot resource for '' @ basename h unity_path) st2)))
       | None \<Rightarrow>
           (case colors unity_material unity_prop of
              Some color_value \<Rightarrow>
                (tres_content @ godot_prop @ '' = '' @ convert_color F color_value @ newline, st)
            | None \<Rightarrow>
                (case floats unity_material unity_prop of
                   Some v \<Rightarrow>
                     (let value = (if unity_prop = ''_Glossiness''
                                   then float_sub F (float_of_str F ''1.0'') v else v)
                      in (tres_content @ godot_prop @ '' = '' @ float_str F value @ newline, st))
                 | None \<Rightarrow> (tres_content, st)))))"

fun translate_properties ::
  "host \<Rightarrow> 'f float_ops \<Rightarrow> 'f material \<Rightarrow> string \<Rightarrow> string \<Rightarrow> (string \<times> string) list \<Rightarrow>
   string \<times> converter \<Rightarrow> string \<times> converter" where
  "translate_properties h F unity_material unity_project_root godot_project_root [] acc = acc"
| "translate_properties h F unity_material unity_project_root godot_project_root
     ((unity_prop, godot_prop) # table) acc =
     translate_properties h F unity_material unity_project_root godot_project_root table
       (translate_property h F unity_material unity_project_root godot_project_root
          unity_prop godot_prop acc)"

definition tres_header :: string where
  "tres_header =
     ''[gd_resource type='' @ dquote @ ''StandardMaterial3D'' @ dquote @ '' format=3]'' @ newline @ newline
     @ ''[resource]'' @ newline"

definition generate_godot_material ::
  "host \<Rightarrow> 'f float_ops \<Rightarrow> converter \<Rightarrow> 'f material \<Rightarrow> string \<Rightarrow> string \<Rightarrow> string \<Rightarrow> converter" where
  "generate_godot_material h F st unity_material unity_project_root godot_project_root output_path =
     (case translate_properties h F unity_material unity_project_root godot_project_root
             property_mappings (tres_header @ transparency_lines F unity_material, st) of
        (tres_content, st1) \<Rightarrow>
          st1\<lparr>fs_log := fs_log st1 @ [MakeDirs (dirname h output_path), WriteFile output_path tres_content]\<rparr>)"


section \<open>Regular expressions\<close>

text \<open>
  The analyzer is written with \<open>re.search\<close> and \<open>re.finditer\<close>. The patterns are kept as
  syntax trees and run by a backtracking matcher in the order of Python's: a repetition
  takes as much as it can before it gives back, and the first way to match wins. The
  classes \<open>\s\<close>, \<open>\d\<close> and \<open>\w\<close> are those of a \<open>str\<close> pattern on the characters below 256:
  the white space of \<open>str.isspace\<close>, the ten digits, and the letters, digits and numeric
  characters of Latin-1 with the underscore.
\<close>

datatype cset = CChar char | CRange char char | CSpace | CDigit | CWord

definition in_range :: "char \<Rightarrow> char \<Rightarrow> char \<Rightarrow> bool" where
  "in_range lo hi c = ((of_char lo :: nat) \<le> of_char c \<and> (of_char c :: nat) \<le> of_char hi)"

fun in_cset :: "cset \<Rightarrow> char \<Rightarrow> bool" where
  "in_cset (CChar d) c = (c = d)"
| "in_cset (CRange lo hi) c = in_range lo hi c"
| "in_cset CSpace c = is_space c"
| "in_cset CDigit c = in_range CHR ''0'' CHR ''9'' c"
| "in_cset CWord c = (in_range CHR ''a'' CHR ''z'' c \<or> in_range CHR ''A'' CHR ''Z'' c
                      \<or> in_range CHR ''0'' CHR ''9'' c \<or> c = CHR ''_''
                      \<or> c = CHR 0xAA \<or> in_range CHR 0xB2 CHR 0xB3 c \<or> c = CHR 0xB5
                      \<or> in_range CHR 0xB9 CHR 0xBA c \<or> in_range CHR 0xBC CHR 0xBE c
                      \<or> in_range CHR 0xC0 CHR 0xD6 c \<or> in_range CHR 0xD8 CHR 0xF6 c
                      \<or> in_range CHR 0xF8 CHR 0xFF c)"

definition in_class :: "cset list \<Rightarrow> char \<Rightarrow> bool" where
  "in_class cs c = list_ex (\<lambda>k. in_cset k c) cs"

text \<open>
  \<open>Lit t\<close> is the literal text \<open>t\<close>, \<open>OneOf cs\<close> a class \<open>[...]\<close>, \<open>NoneOf cs\<close> a negated
  class \<open>[^...]\<close>, \<open>AnyChar\<close> the dot (any character but a newline), \<open>Cat\<close> concatenation,
  \<open>ZeroOrMore\<close> and \<open>OneOrMore\<close> the greedy \<open>*\<close> and \<open>+\<close>, \<open>Repeat n\<close> the count \<open>{n}\<close>
  and \<open>Capture n\<close> the \<open>n\<close>-th capturing group.
\<close>

datatype regex =
    Lit string
  | OneOf "cset list"
  | NoneOf "cset list"
  | AnyChar
  | Cat regex regex
  | ZeroOrMore regex
  | OneOrMore regex
  | Repeat nat regex
  | Capture nat regex

fun cat :: "regex list \<Rightarrow> regex" where
  "cat [] = Lit []"
| "cat [r] = r"
| "cat (r # rs) = Cat r (cat rs)"

type_synonym captures = "(nat \<times> string) list"

fun rsize :: "regex \<Rightarrow> nat" where
  "rsize (Cat a b) = rsize a + rsize b + 1"
| "rsize (ZeroOrMore r) = rsize r + 1"
| "rsize (OneOrMore r) = rsize r + 2"
| "rsize (Repeat n r) = (rsize r + 1) * (n + 1)"
| "rsize (Capture n r) = rsize r + 1"
| "rsize r = 0"

text \<open>
  \<open>matches r s caps\<close> lists every way in which \<open>r\<close> matches at the start of \<open>s\<close>, in the
  order in which backtracking would try them: each entry is the text left after the
  match with the groups captured so far (the latest first). An iteration of a repetition
  that consumes nothing is not repeated.
\<close>

function matches :: "regex \<Rightarrow> string \<Rightarrow> captures \<Rightarrow> (string \<times> captures) list" where
  "matches (Lit t) s caps = (if prefix t s then [(drop (length t) s, caps)] else [])"
| "matches (OneOf cs) s caps =
     (case s of [] \<Rightarrow> [] | c # rest \<Rightarrow> if in_class cs c then [(rest, caps)] else [])"
| "matches (NoneOf cs) s caps =
     (case s of [] \<Rightarrow> [] | c # rest \<Rightarrow> if in_class cs c then [] else [(rest, caps)])"
| "matches AnyChar s caps =
     (case s of [] \<Rightarrow> [] | c # rest \<Rightarrow> if c = CHR 0x0A then [] else [(rest, caps)])"
| "matches (Cat a b) s caps =
     concat (map (\<lambda>(s1, caps1). matches b s1 caps1) (matches a s caps))"
| "matches (ZeroOrMore r) s caps =
     concat (map (\<lambda>(s1, caps1). matches (ZeroOrMore r) s1 caps1)
               (filter (\<lambda>(s1, caps1). length s1 < length s) (matches r s caps)))
     @ [(s, caps)]"
| "matches (OneOrMore r) s caps =
     concat (map (\<lambda>(s1, caps1). matches (ZeroOrMore r) s1 caps1) (matches r s caps))"
| "matches (Repeat 0 r) s caps = [(s, caps)]"
| "matches (Repeat (Suc n) r) s caps =
     concat (map (\<lambda>(s1, caps1). matches (Repeat n r) s1 caps1) (matches r s caps))"
| "matches (Capture n r) s caps =
     map (\<lambda>(s1, caps1). (s1, (n, take (length s - length s1) s) # caps1)) (matches r s caps)"
  by pat_completeness auto
termination
  by (relation "inv_image (less_than <*lex*> less_than) (\<lambda>(r, s, caps). (rsize r, length s))") auto

declare matches.simps [simp del]

text \<open>
  \<open>re.search\<close>: the first position, from the left, at which the pattern matches. The
  result is the matched text, the groups, and the text after the match.
\<close>

fun re_search :: "regex \<Rightarrow> string \<Rightarrow> (string \<times> captures \<times> string) option" where
  "re_search r [] =
     (case matches r [] [] of [] \<Rightarrow> None | (rest, caps) # _ \<Rightarrow> Some ([], caps, rest))"
| "re_search r (c # s) =
     (case matches r (c # s) [] of
        [] \<Rightarrow> re_search r s
      | (rest, caps) # _ \<Rightarrow> Some (take (length (c # s) - length rest) (c # s), caps, rest))"

text \<open>
  \<open>re.finditer\<close>: the successive matches, each search starting where the previous match
  ended, one character further after an empty match. The text left after a match is a
  suffix of the text searched, so the test on the lengths always succeeds; it is there
  for the recursion to be well-founded.
\<close>

function finditer :: "regex \<Rightarrow> string \<Rightarrow> (string \<times> captures) list" where
  "finditer r s =
     (case re_search r s of
        None \<Rightarrow> []
      | Some (m, caps, rest) \<Rightarrow>
          (m, caps) # (let next = (if m = [] then drop 1 rest else rest)
                       in if length next < length s then finditer r next else []))"
  by pat_completeness auto
termination
  by (relation "measure (\<lambda>(r, s). length s)") auto

declare finditer.simps [simp del]

definition group_text :: "captures \<Rightarrow> nat \<Rightarrow> string" where
  "group_text caps n = (case map_of caps n of Some t \<Rightarrow> t | None \<Rightarrow> [])"

section \<open>Material analyzer\<close>

text \<open>\<^verbatim>\<open>m_Name: (.+)\<close>\<close>

definition name_pattern :: regex where
  "name_pattern = cat [Lit ''m_Name: '', Capture 1 (OneOrMore AnyChar)]"

text \<open>\<^verbatim>\<open>_(\w+):\s*\n\s*m_Texture:\s*{fileID:\s*(\d+),\s*guid:\s*([a-f0-9]{32})\<close>\<close>

definition tex_pattern :: regex where
  "tex_pattern =
     cat [Lit ''_'', Capture 1 (OneOrMore (OneOf [CWord])), Lit '':'', ZeroOrMore (OneOf [CSpace]),
          Lit newline, ZeroOrMore (OneOf [CSpace]), Lit ''m_Texture:'', ZeroOrMore (OneOf [CSpace]),
          Lit ''{fileID:'', ZeroOrMore (OneOf [CSpace]), Capture 2 (OneOrMore (OneOf [CDigit])),
          Lit '','', ZeroOrMore (OneOf [CSpace]), Lit ''guid:'', ZeroOrMore (OneOf [CSpace]),
          Capture 3 (Repeat 32 (OneOf [CRange CHR ''a'' CHR ''f'', CRange CHR ''0'' CHR ''9'']))]"

text \<open>\<^verbatim>\<open>m_Floats:\s*((?:\s*-\s*_\w+:\s*[\d.]+\s*)+)\<close>\<close>

definition float_entry :: regex where
  "float_entry =
     cat [ZeroOrMore (OneOf [CSpace]), Lit ''-'', ZeroOrMore (OneOf [CSpace]), Lit ''_'',
          OneOrMore (OneOf [CWord]), Lit '':'', ZeroOrMore (OneOf [CSpace]),
          OneOrMore (OneOf [CDigit, CChar CHR ''.'']), ZeroOrMore (OneOf [CSpace])]"

definition float_pattern :: regex where
  "float_pattern =
     cat [Lit ''m_Floats:'', ZeroOrMore (OneOf [CSpace]), Capture 1 (OneOrMore float_entry)]"

text \<open>\<^verbatim>\<open>-\s*(_\w+):\s*([\d.]+)\<close>\<close>

definition float_line :: regex where
  "float_line =
     cat [Lit ''-'', ZeroOrMore (OneOf [CSpace]),
          Capture 1 (Cat (Lit ''_'') (OneOrMore (OneOf [CWord]))), Lit '':'',
          ZeroOrMore (OneOf [CSpace]), Capture 2 (OneOrMore (OneOf [CDigit, CChar CHR ''.'']))]"

text \<open>\<^verbatim>\<open>m_Colors:\s*((?:\s*-\s*_\w+:\s*{[^}]+}\s*)+)\<close>\<close>

definition color_entry :: regex where
  "color_entry =
     cat [ZeroOrMore (OneOf [CSpace]), Lit ''-'', ZeroOrMore (OneOf [CSpace]), Lit ''_'',
          OneOrMore (OneOf [CWord]), Lit '':'', ZeroOrMore (OneOf [CSpace]),
          Lit ''{'', OneOrMore (NoneOf [CChar CHR ''}'']), Lit ''}'', ZeroOrMore (OneOf [CSpace])]"

definition color_pattern :: regex where
  "color_pattern =
     cat [Lit ''m_Colors:'', ZeroOrMore (OneOf [CSpace]), Capture 1 (OneOrMore color_entry)]"

text \<open>\<^verbatim>\<open>-\s*(_\w+):\s*{r:\s*([\d.]+),\s*g:\s*([\d.]+),\s*b:\s*([\d.]+),\s*a:\s*([\d.]+)}\<close>\<close>

definition color_line :: regex where
  "color_line =
     cat [Lit ''-'', ZeroOrMore (OneOf [CSpace]),
          Capture 1 (Cat (Lit ''_'') (OneOrMore (OneOf [CWord]))), Lit '':'',
          ZeroOrMore (OneOf [CSpace]), Lit ''{r:'', ZeroOrMore (OneOf [CSpace]),
          Capture 2 (OneOrMore (OneOf [CDigit, CChar CHR ''.''])),
          Lit '','', ZeroOrMore (OneOf [CSpace]), Lit ''g:'', ZeroOrMore (OneOf [CSpace]),
          Capture 3 (OneOrMore (OneOf [CDigit, CChar CHR ''.''])),
          Lit '','', ZeroOrMore (OneOf [CSpace]), Lit ''b:'', ZeroOrMore (OneOf [CSpace]),
          Capture 4 (OneOrMore (OneOf [CDigit, CChar CHR ''.''])),
          Lit '','', ZeroOrMore (OneOf [CSpace]), Lit ''a:'', ZeroOrMore (OneOf [CSpace]),
          Capture 5 (OneOrMore (OneOf [CDigit, CChar CHR ''.''])), Lit ''}'']"

text \<open>\<^verbatim>\<open>m_ShaderKeywords:\s*(.*)\<close>\<close>

definition keywords_pattern :: regex where
  "keywords_pattern =
     cat [Lit ''m_ShaderKeywords:'', ZeroOrMore (OneOf [CSpace]), Capture 1 (ZeroOrMore AnyChar)]"

text \<open>
  \<open>float(value)\<close> on the texts the analyzer passes, which consist of digits and dots:
  it raises \<open>ValueError\<close> unless there is a digit and at most one dot.
\<close>

definition py_float :: "'f float_ops \<Rightarrow> string \<Rightarrow> exn + 'f" where
  "py_float F s =
     (if list_ex (in_range CHR ''0'' CHR ''9'') s \<and> length (filter (\<lambda>c. c = CHR ''.'') s) \<le> 1
         \<and> list_all (in_class [CDigit, CChar CHR ''.'']) s
      then Inr (float_of_str F s)
      else Inl (ValueError (''could not convert string to float: '' @ squote @ s @ squote)))"

text \<open>The loop that fills \<open>textures\<close>; the key is the first group, without the underscore.\<close>

fun collect_textures :: "(string \<times> captures) list \<Rightarrow> (string \<rightharpoonup> texture_ref) \<Rightarrow> (string \<rightharpoonup> texture_ref)" where
  "collect_textures [] textures_acc = textures_acc"
| "collect_textures ((m, caps) # rest) textures_acc =
     (let prop_name = group_text caps 1; file_id = group_text caps 2; guid_text = group_text caps 3
      in collect_textures rest
           (if file_id \<noteq> ''0''
            then textures_acc(prop_name \<mapsto> \<lparr>ref_fileID = file_id, ref_guid = guid_text\<rparr>)
            else textures_acc))"

text \<open>The loop that fills \<open>float_properties\<close>.\<close>

fun collect_floats :: "'f float_ops \<Rightarrow> (string \<times> captures) list \<Rightarrow> (string \<rightharpoonup> 'f) \<Rightarrow> exn + (string \<rightharpoonup> 'f)" where
  "collect_floats F [] float_properties = Inr float_properties"
| "collect_floats F ((m, caps) # rest) float_properties =
     (let prop_name = group_text caps 1; value = group_text caps 2 in
      case py_float F value of
        Inl e \<Rightarrow> Inl e
      | Inr v \<Rightarrow> collect_floats F rest (float_properties(prop_name \<mapsto> v)))"

definition parse_floats :: "'f float_ops \<Rightarrow> string \<Rightarrow> exn + (string \<rightharpoonup> 'f)" where
  "parse_floats F content =
     (case re_search float_pattern content of
        None \<Rightarrow> Inr Map.empty
      | Some (m, caps, rest) \<Rightarrow>
          (let float_text = group_text caps 1
           in collect_floats F (finditer float_line float_text) Map.empty))"

text \<open>The loop that fills \<open>color_properties\<close>.\<close>

fun collect_colors :: "'f float_ops \<Rightarrow> (string \<times> captures) list \<Rightarrow> (string \<rightharpoonup> 'f rgba) \<Rightarrow> exn + (string \<rightharpoonup> 'f rgba)" where
  "collect_colors F [] color_properties = Inr color_properties"
| "collect_colors F ((m, caps) # rest) color_properties =
     (let prop_name = group_text caps 1 in
      case py_float F (group_text caps 2) of
        Inl e \<Rightarrow> Inl e
      | Inr rv \<Rightarrow>
      (case py_float F (group_text caps 3) of
        Inl e \<Rightarrow> Inl e
      | Inr gv \<Rightarrow>
      (case py_float F (group_text caps 4) of
        Inl e \<Rightarrow> Inl e
      | Inr bv \<Rightarrow>
      (case py_float F (group_text caps 5) of
        Inl e \<Rightarrow> Inl e
      | Inr av \<Rightarrow>
          collect_colors F rest
            (color_properties(prop_name \<mapsto> \<lparr>red = rv, green = gv, blue = bv, alpha = av\<rparr>))))))"

definition parse_colors :: "'f float_ops \<Rightarrow> string \<Rightarrow> exn + (string \<rightharpoonup> 'f rgba)" where
  "parse_colors F content =
     (case re_search color_pattern content of
        None \<Rightarrow> Inr Map.empty
      | Some (m, caps, rest) \<Rightarrow>
          (let color_text = group_text caps 1
           in collect_colors F (finditer color_line color_text) Map.empty))"

definition analyze_unity_material ::
  "host \<Rightarrow> 'f float_ops \<Rightarrow> fs_event list \<Rightarrow> string \<Rightarrow> exn + 'f material" where
  "analyze_unity_material h F fs mat_path =
     (let content = (case read_utf8 h fs mat_path of
                       Some text \<Rightarrow> text
                     | None \<Rightarrow> read_latin1 h fs mat_path);
          the_name = (case re_search name_pattern content of
                        Some (m, caps, rest) \<Rightarrow> strip (group_text caps 1)
                      | None \<Rightarrow> ''Unknown'');
          the_textures = collect_textures (finditer tex_pattern content) Map.empty
      in case parse_floats F content of
           Inl e \<Rightarrow> Inl e
         | Inr float_properties \<Rightarrow>
             (case parse_colors F content of
                Inl e \<Rightarrow> Inl e
              | Inr color_properties \<Rightarrow>
                  (let keywords = (case re_search keywords_pattern content of
                                     Some (m, caps, rest) \<Rightarrow> strip (group_text caps 1)
                                   | None \<Rightarrow> [])
                   in Inr \<lparr>material_name = the_name, source_path = mat_path,
                            textures = the_textures, floats = float_properties,
                            colors = color_properties, shader_keywords = keywords\<rparr>)))"

section \<open>Scene composer\<close>

text \<open>Strategy 2 of \<open>find_godot_fbx\<close>: the first directory that holds a file of that name.\<close>

fun search_fbx :: "(string \<times> string list) list \<Rightarrow> string \<Rightarrow> string option" where
  "search_fbx [] fbx_name = None"
| "search_fbx ((root, files) # rest) fbx_name =
     (if fbx_name \<in> set files then Some root else search_fbx rest fbx_name)"

definition find_godot_fbx ::
  "host \<Rightarrow> converter \<Rightarrow> string \<Rightarrow> string \<Rightarrow> string \<Rightarrow> string \<Rightarrow> string \<Rightarrow> string option \<times> converter" where
  "find_godot_fbx h st unity_fbx_path unity_root godot_root unity_assets_dir godot_assets_dir =
     (let fbx_name = basename h unity_fbx_path;
          rel_path = relpath h unity_fbx_path unity_assets_dir;
          godot_fbx_path = join h godot_assets_dir rel_path
      in if path_exists h (fs_log st) godot_fbx_path then
           (let st1 = print (''Found FBX via direct mapping: '' @ godot_fbx_path) st;
                godot_res_path = relpath h godot_fbx_path godot_root
            in (Some (''res://'' @ replace_backslash godot_res_path), st1))
         else
           (let st1 = print (''Direct path not found, searching for '' @ fbx_name @ '' in ''
                               @ godot_assets_dir @ ''...'') st
            in case search_fbx (walk h (fs_log st1) godot_assets_dir) fbx_name of
                 Some root \<Rightarrow>
                   (let found_path = join h root fbx_name;
                        rel_path2 = relpath h found_path godot_root;
                        st2 = print (''Found FBX via search: '' @ found_path) st1
                    in (Some (''res://'' @ replace_backslash rel_path2), st2))
               | None \<Rightarrow>
                   (None, print (''Could not find '' @ fbx_name @ '' in Godot project'') st1)))"

text \<open>\<open>os.path.join(*parts)\<close> for a non-empty list of parts.\<close>

fun join_all :: "host \<Rightarrow> string list \<Rightarrow> string" where
  "join_all h [] = []"
| "join_all h (p # ps) = foldl (join h) p ps"

text \<open>The loop that appends one override node for each entry of the mapping.\<close>

fun material_overrides :: "(string \<times> string) list \<Rightarrow> string" where
  "material_overrides [] = []"
| "material_overrides ((mesh_name, material_path) # rest) =
     ''[node name='' @ dquote @ mesh_name @ dquote @ '' parent='' @ dquote @ ''.'' @ dquote
       @ '' index='' @ dquote @ ''0'' @ dquote @ '']'' @ newline
     @ ''material_override = ExtResource('' @ dquote @ material_path @ dquote @ '')'' @ newline @ newline
     @ material_overrides rest"

definition generate_godot_scene ::
  "host \<Rightarrow> converter \<Rightarrow> string \<Rightarrow> (string \<times> string) list \<Rightarrow> string \<Rightarrow> string \<Rightarrow> string \<Rightarrow> string \<Rightarrow>
   string \<Rightarrow> string option \<times> converter" where
  "generate_godot_scene h st fbx_path material_mappings unity_root godot_root
     unity_assets_dir godot_assets_dir output_dir =
     (let fbx_name = fst (splitext h (basename h fbx_path));
          scenes_dir = join h godot_assets_dir ''Scenes'';
          st1 = st\<lparr>fs_log := fs_log st @ [MakeDirs scenes_dir]\<rparr>;
          full_rel_path = relpath h fbx_path unity_assets_dir;
          path_parts = split_sep h full_rel_path;
          relevant_path = (case dropWhile (\<lambda>part. part \<noteq> ''Meshes'') path_parts of
                             [] \<Rightarrow> full_rel_path
                           | kept \<Rightarrow> join_all h kept);
          scene_subdir = join h scenes_dir (dirname h relevant_path);
          st2 = st1\<lparr>fs_log := fs_log st1 @ [MakeDirs scene_subdir]\<rparr>;
          output_path = join h scene_subdir (fbx_name @ ''.tscn'')
      in case find_godot_fbx h st2 fbx_path unity_root godot_root unity_assets_dir godot_assets_dir of
           (None, st3) \<Rightarrow>
             (None, print (''Warning: Could not find corresponding FBX in Godot project for '' @ fbx_path) st3)
         | (Some godot_fbx_path, st3) \<Rightarrow>
             if godot_fbx_path = [] then
               (None, print (''Warning: Could not find corresponding FBX in Godot project for '' @ fbx_path) st3)
             else
               (let tscn_content =
                      ''[gd_scene load_steps=2 format=3]'' @ newline @ newline
                      @ ''[ext_resource type='' @ dquote @ ''PackedScene'' @ dquote @ '' path='' @ dquote
                      @ godot_fbx_path @ dquote @ '' id='' @ dquote @ ''1'' @ dquote @ '']'' @ newline @ newline
                      @ ''[node name='' @ dquote @ fbx_name @ dquote @ '' instance=ExtResource('' @ dquote
                      @ ''1'' @ dquote @ '')]'' @ newline @ newline
                      @ material_overrides material_mappings
                in (Some output_path, st3\<lparr>fs_log := fs_log st3 @ [WriteFile output_path tscn_content]\<rparr>)))"

section \<open>Batch conversion\<close>

text \<open>
  A Python dictionary that is iterated is an association list in insertion order;
  \<open>d[k] = v\<close> is \<open>AList.update k v d\<close>, which replaces the value of a key that is present
  and appends the entry otherwise.
\<close>

text \<open>The first loop of \<open>convert_directory\<close>, over the material files.\<close>

fun convert_materials ::
  "host \<Rightarrow> 'f float_ops \<Rightarrow> string \<Rightarrow> string \<Rightarrow> string \<Rightarrow> string \<Rightarrow> string list \<Rightarrow>
   (string \<times> string) list \<Rightarrow> converter \<Rightarrow> (exn + (string \<times> string) list) \<times> converter" where
  "convert_materials h F input_path output_path unity_project_root godot_project_root [] material_paths st =
     (Inr material_paths, st)"
| "convert_materials h F input_path output_path unity_project_root godot_project_root
     (mat_file # mat_files) material_paths st =
     (case relative_to h mat_file input_path of
        Inl e \<Rightarrow> (Inl e, st)
      | Inr relative_path \<Rightarrow>
          (let output_file = path_div h output_path (with_suffix h relative_path ''.tres'') in
           case analyze_unity_material h F (fs_log st) mat_file of
             Inl (ValueError msg) \<Rightarrow>
               convert_materials h F input_path output_path unity_project_root godot_project_root
                 mat_files material_paths
                 (print (''Error converting '' @ mat_file @ '': '' @ msg) st)
           | Inr material_info \<Rightarrow>
               (let st1 = generate_godot_material h F st material_info unity_project_root
                            godot_project_root output_file
                in case relative_to h output_file (path_of h godot_project_root) of
                     Inl (ValueError msg) \<Rightarrow>
                       convert_materials h F input_path output_path unity_project_root
                         godot_project_root mat_files material_paths
                         (print (''Error converting '' @ mat_file @ '': '' @ msg) st1)
                   | Inr rel \<Rightarrow>
                       (let godot_mat_path = replace_backslash (''res://'' @ rel);
                            st2 = print (''Converted material: '' @ path_name h mat_file @ '' -> ''
                                           @ path_name h output_file) st1
                        in convert_materials h F input_path output_path unity_project_root
                             godot_project_root mat_files
                             (AList.update (material_name material_info) godot_mat_path material_paths)
                             st2))))"

text \<open>The loop that builds \<open>material_mappings\<close> for one mesh, whose stem is \<open>stem\<close>.\<close>

fun build_material_mappings ::
  "string \<Rightarrow> (string \<times> string) list \<Rightarrow> (string \<times> string) list \<Rightarrow> (string \<times> string) list" where
  "build_material_mappings stem [] material_mappings = material_mappings"
| "build_material_mappings stem ((mat_name, mat_path) # rest) material_mappings =
     build_material_mappings stem rest
       (if sublist (lower mat_name) (lower stem)
        then AList.update stem mat_path material_mappings
        else material_mappings)"

text \<open>The second loop of \<open>convert_directory\<close>, over the mesh files.\<close>

fun create_scenes ::
  "host \<Rightarrow> (string \<times> string) list \<Rightarrow> string \<Rightarrow> string \<Rightarrow> string \<Rightarrow> string \<Rightarrow> string list \<Rightarrow>
   converter \<Rightarrow> converter" where
  "create_scenes h material_paths input_dir output_dir unity_project_root godot_project_root [] st = st"
| "create_scenes h material_paths input_dir output_dir unity_project_root godot_project_root
     (fbx_file # fbx_files) st =
     (let st1 = print (newline @ ''Processing '' @ path_name h fbx_file) st;
          material_mappings = build_material_mappings (path_stem h fbx_file) material_paths []
      in case generate_godot_scene h st1 fbx_file material_mappings unity_project_root
                godot_project_root input_dir output_dir output_dir of
           (scene_path, st2) \<Rightarrow>
             create_scenes h material_paths input_dir output_dir unity_project_root godot_project_root
               fbx_files
               (case scene_path of
                  None \<Rightarrow> st2
                | Some created \<Rightarrow>
                    if created = [] then st2 else print (''Created scene file: '' @ created) st2))"

definition convert_directory ::
  "host \<Rightarrow> 'f float_ops \<Rightarrow> converter \<Rightarrow> string \<Rightarrow> string \<Rightarrow> string \<Rightarrow> string \<Rightarrow> exn option \<times> converter" where
  "convert_directory h F st input_dir output_dir unity_project_root godot_project_root =
     (let input_path = path_of h input_dir;
          output_path = path_of h output_dir;
          mat_files = glob h (fs_log st) input_path ''**/*.mat'';
          fbx_files = glob h (fs_log st) input_path ''**/*.fbx'';
          st1 = print (newline @ ''Found '' @ str_nat (length mat_files) @ '' material files and ''
                         @ str_nat (length fbx_files) @ '' FBX files.'') st;
          st2 = print (newline @ ''Converting materials...'') st1
      in case convert_materials h F input_path output_path unity_project_root godot_project_root
                mat_files [] st2 of
           (Inl e, st3) \<Rightarrow> (Some e, st3)
         | (Inr material_paths, st3) \<Rightarrow>
             (let st4 = print (newline @ ''Creating scene files with material assignments...'') st3;
                  st5 = create_scenes h material_paths input_dir output_dir unity_project_root
                          godot_project_root fbx_files st4
              in (None, print (newline @ ''Conversion complete!'') st5)))"

section \<open>Specification helpers\<close>

text \<open>The first element of a list of candidates, if there is one, after a conversion.\<close>

definition first_of :: "string list \<Rightarrow> (string \<Rightarrow> string) \<Rightarrow> string option" where
  "first_of ps f = (case ps of [] \<Rightarrow> None | p # _ \<Rightarrow> Some (f p))"

definition resource_id :: "host \<Rightarrow> string \<Rightarrow> string \<Rightarrow> string" where
  "resource_id h godot_project_root full_path =
     ''res://'' @ replace_backslash (relpath h full_path godot_project_root)"

text \<open>
  The property loop seen as data: \<open>property_value\<close> is the text that the loop body
  assigns to the Godot property for one row of the table, if it assigns one, and
  \<open>property_entries\<close> collects the assignments of the whole loop in order.
  \<open>render_entries\<close> writes them as lines \<open>key = value\<close>.
\<close>

definition assignment :: "string \<Rightarrow> string \<Rightarrow> string" where
  "assignment key v = key @ '' = '' @ v @ newline"

definition render_entries :: "(string \<times> string) list \<Rightarrow> string" where
  "render_entries entries = concat (map (\<lambda>(key, v). assignment key v) entries)"

definition property_value ::
  "host \<Rightarrow> 'f float_ops \<Rightarrow> 'f material \<Rightarrow> string \<Rightarrow> string \<Rightarrow> string \<Rightarrow> converter \<Rightarrow>
   string option \<times> converter" where
  "property_value h F unity_material unity_project_root godot_project_root unity_prop st =
     (case textures unity_material unity_prop of
        Some tex_info \<Rightarrow>
          (case find_meta_file_by_guid h st unity_project_root (ref_guid tex_info) of
             (None, st1) \<Rightarrow> (None, st1)
           | (Some unity_path, st1) \<Rightarrow>
               if unity_path = [] then (None, st1)
               else
                 (case find_godot_resource h st1 godot_project_root unity_path of
                    (Some godot_path, st2) \<Rightarrow>
                      if godot_path = [] then
                        (None, print (''  Warning: Could not find Godot resource for '' @ basename h unity_path) st2)
                      else
                        (Some (''ExtResource('' @ dquote @ godot_path @ dquote @ '')''),
                         print (''  Found texture: '' @ basename h unity_path @ '' -> '' @ godot_path) st2)
                  | (None, st2) \<Rightarrow>
                      (None, print (''  Warning: Could not find Godot resource for '' @ basename h unity_path) st2)))
      | None \<Rightarrow>
          (case colors unity_material unity_prop of
             Some color_value \<Rightarrow> (Some (convert_color F color_value), st)
           | None \<Rightarrow>
               (case floats unity_material unity_prop of
                  Some v \<Rightarrow>
                    (Some (float_str F (if unity_prop = ''_Glossiness''
                                        then float_sub F (float_of_str F ''1.0'') v else v)), st)
                | None \<Rightarrow> (None, st))))"

fun property_entries ::
  "host \<Rightarrow> 'f float_ops \<Rightarrow> 'f material \<Rightarrow> string \<Rightarrow> string \<Rightarrow> (string \<times> string) list \<Rightarrow> converter \<Rightarrow>
   (string \<times> string) list \<times> converter" where
  "property_entries h F unity_material unity_project_root godot_project_root [] st = ([], st)"
| "property_entries h F unity_material unity_project_root godot_project_root
     ((unity_prop, godot_prop) # table) st =
     (case property_value h F unity_material unity_project_root godot_project_root unity_prop st of
        (v, st1) \<Rightarrow>
          (case property_entries h F unity_material unity_project_root godot_project_root table st1 of
             (entries, st2) \<Rightarrow>
               ((case v of None \<Rightarrow> [] | Some text \<Rightarrow> [(godot_prop, text)]) @ entries, st2)))"

definition has_value :: "'f material \<Rightarrow> string \<Rightarrow> bool" where
  "has_value m unity_prop =
     (textures m unity_prop \<noteq> None \<or> colors m unity_prop \<noteq> None \<or> floats m unity_prop \<noteq> None)"

text \<open>The test of the mapping loop: the material name is part of the stem, in lower case.\<close>

definition name_matches :: "string \<Rightarrow> string \<times> string \<Rightarrow> bool" where
  "name_matches stem entry = sublist (lower (fst entry)) (lower stem)"

text \<open>
  The two directories that \<open>generate_godot_scene\<close> creates before it looks for the mesh:
  the scenes directory and the subdirectory of the scene file.
\<close>

definition scene_dirs :: "host \<Rightarrow> string \<Rightarrow> string \<Rightarrow> string \<Rightarrow> string list" where
  "scene_dirs h fbx_path unity_assets_dir godot_assets_dir =
     [join h godot_assets_dir ''Scenes'',
      join h (join h godot_assets_dir ''Scenes'')
        (dirname h (case dropWhile (\<lambda>part. part \<noteq> ''Meshes'')
                           (split_sep h (relpath h fbx_path unity_assets_dir)) of
                      [] \<Rightarrow> relpath h fbx_path unity_assets_dir
                    | kept \<Rightarrow> join_all h kept))]"

text \<open>
  The transparency fields that the specification of the translator names: transparency
  on, an alpha-scissor threshold, and a blend-mode selector.
\<close>

definition documented_transparency_fields :: "string list" where
  "documented_transparency_fields = [''transparency'', ''alpha_scissor_threshold'', ''blend_mode'']"







text \<open>A run of characters of a class, followed by a character outside it or by nothing.\<close>

definition ends_class :: "cset list \<Rightarrow> string \<Rightarrow> bool" where
  "ends_class cs s = (case s of [] \<Rightarrow> True | c # _ \<Rightarrow> \<not> in_class cs c)"




text \<open>The text that the analyzer reads: decoded as UTF-8, or else as Latin-1.\<close>

definition material_text :: "host \<Rightarrow> fs_event list \<Rightarrow> string \<Rightarrow> string" where
  "material_text h fs mat_path =
     (case read_utf8 h fs mat_path of Some text \<Rightarrow> text | None \<Rightarrow> read_latin1 h fs mat_path)"

section \<open>A sample host\<close>

text \<open>
  A small POSIX-like host on which the theorems are instantiated: a Unity project under
  \<open>/unity\<close> with one texture, its metadata file and one mesh, and a Godot project under
  \<open>/godot\<close> that holds the texture as a PNG file and no mesh.
\<close>

definition posix_basename :: "string \<Rightarrow> string" where
  "posix_basename p = rev (takeWhile (\<lambda>c. c \<noteq> CHR ''/'') (rev p))"

definition posix_dirname :: "string \<Rightarrow> string" where
  "posix_dirname p = take (length p - length (posix_basename p) - 1) p"

definition posix_join :: "string \<Rightarrow> string \<Rightarrow> string" where
  "posix_join a b =
     (if prefix ''/'' b then b
      else if a = [] \<or> suffix ''/'' a then a @ b
      else a @ ''/'' @ b)"

definition posix_splitext :: "string \<Rightarrow> string \<times> string" where
  "posix_splitext p =
     (let file = posix_basename p;
          ext = rev (takeWhile (\<lambda>c. c \<noteq> CHR ''.'') (rev file));
          stem = take (length file - length ext - 1) file
      in if CHR ''.'' \<in> set file \<and> list_ex (\<lambda>c. c \<noteq> CHR ''.'') stem
         then (take (length p - length ext - 1) p, CHR ''.'' # ext)
         else (p, []))"

fun split_slash :: "string \<Rightarrow> string \<Rightarrow> string list" where
  "split_slash part [] = [rev part]"
| "split_slash part (c # s) =
     (if c = CHR ''/'' then rev part # split_slash [] s else split_slash (c # part) s)"

definition below :: "string \<Rightarrow> string \<Rightarrow> string option" where
  "below p start = (if prefix (start @ ''/'') p then Some (drop (length start + 1) p) else None)"

definition sample_guid :: string where
  "sample_guid = ''0123456789abcdef0123456789abcdef''"

definition sample_host :: host where
  "sample_host = \<lparr>
     basename = posix_basename,
     dirname = posix_dirname,
     splitext = posix_splitext,
     join = posix_join,
     relpath = (\<lambda>p start. case below p start of Some rel \<Rightarrow> rel | None \<Rightarrow> p),
     split_sep = split_slash [],
     walk = (\<lambda>fs top.
        if top = ''/unity'' then
          [(''/unity/Assets/Textures'', [''Wood.psd'', ''Wood.psd.meta'']),
           (''/unity/Assets/Meshes/Props'', [''Crate.fbx''])]
        else if top = ''/godot'' then [(''/godot/Textures'', [''Wood.PNG''])]
        else []),
     read_utf8 = (\<lambda>fs p.
        if p = ''/unity/Assets/Textures/Wood.psd.meta''
        then Some (''fileFormatVersion: 2'' @ newline @ ''guid: '' @ sample_guid @ newline)
        else None),
     read_latin1 = (\<lambda>fs p. []),
     path_exists = (\<lambda>fs p. p \<in> set [''/unity/Assets/Textures/Wood.psd'',
                                      ''/unity/Assets/Meshes/Props/Crate.fbx'',
                                      ''/godot/Textures/Wood.PNG'']),
     glob = (\<lambda>fs dir pat.
        if dir = ''/unity/Assets'' \<and> pat = ''**/*.fbx'' then [''/unity/Assets/Meshes/Props/Crate.fbx'']
        else []),
     path_of = (\<lambda>p. p),
     path_div = posix_join,
     relative_to = (\<lambda>p start. case below p start of
                                   Some rel \<Rightarrow> Inr rel
                                 | None \<Rightarrow> Inl (ValueError (p @ '' is not below '' @ start))),
     with_suffix = (\<lambda>p suf. fst (posix_splitext p) @ suf),
     path_name = posix_basename,
     path_stem = (\<lambda>p. fst (posix_splitext (posix_basename p)))
   \<rparr>"

text \<open>A converter as \<open>__init__\<close> leaves it, before anything was printed or written.\<close>

definition new_converter :: converter where
  "new_converter = \<lparr>unity_texture_cache = Map.empty, godot_resource_cache = Map.empty,
     meta_walks = 0, stdout = [], fs_log = []\<rparr>"

text \<open>
  Sample floats: a float is kept as its decimal text, and a difference is left as the
  text of the subtraction.
\<close>

definition text_floats :: "string float_ops" where
  "text_floats = \<lparr>float_of_str = (\<lambda>s. s),
                  float_sub = (\<lambda>a b. a @ '' - '' @ b),
                  float_str = (\<lambda>v. v)\<rparr>"

text \<open>
  Sample materials: an alpha-tested one with a metallic value and no cutoff, and one
  whose main texture has a GUID that no metadata file of the sample project declares.
\<close>

definition cutout_material :: "string material" where
  "cutout_material = \<lparr>material_name = ''Leaves'', source_path = ''/unity/Assets/Materials/Leaves.mat'',
     textures = Map.empty, floats = [''_Metallic'' \<mapsto> ''0.3''], colors = Map.empty,
     shader_keywords = ''_ALPHATEST_ON _NORMALMAP''\<rparr>"

definition unresolved_material :: "string material" where
  "unresolved_material = \<lparr>material_name = ''Crate'', source_path = ''/unity/Assets/Materials/Crate.mat'',
     textures = [''_MainTex'' \<mapsto> \<lparr>ref_fileID = ''2800000'', ref_guid = ''ffffffffffffffffffffffffffffffff''\<rparr>],
     floats = [''_Metallic'' \<mapsto> ''0.3''], colors = Map.empty,
     shader_keywords = []\<rparr>"

text \<open>
  Material paths as the first loop may leave them, and a host like the sample host whose
  Godot project does hold the mesh.
\<close>

definition sample_material_paths :: "(string \<times> string) list" where
  "sample_material_paths =
     [(''Crate'', ''res://Materials/Crate.tres''), (''Barrel'', ''res://Materials/Barrel.tres''),
      (''rat'', ''res://Materials/rat.tres'')]"

definition mirrored_host :: host where
  "mirrored_host = sample_host\<lparr>path_exists := (\<lambda>fs p. p = ''/godot/assets/Meshes/Props/Crate.fbx'')\<rparr>"

text \<open>
  A host that keeps track of what the converter does: a path exists when it existed at
  the start, when a directory created since is that path or lies below it, or when a
  file was written to it. Its Godot assets directory holds another mesh, not the crate.
\<close>

fun made_by :: "string \<Rightarrow> fs_event \<Rightarrow> bool" where
  "made_by p (MakeDirs d) = (p = d \<or> prefix (p @ ''/'') d)"
| "made_by p (WriteFile q content) = (p = q)"

definition tracking_host :: host where
  "tracking_host = sample_host\<lparr>
     path_exists := (\<lambda>fs p. path_exists sample_host fs p
                             \<or> p \<in> set [''/godot/assets'', ''/godot/assets/Props'',
                                         ''/godot/assets/Props/Barrel.fbx'']
                             \<or> list_ex (made_by p) fs),
     walk := (\<lambda>fs top.
        if top = ''/godot/assets'' then
          [(''/godot/assets'', []), (''/godot/assets/Props'', [''Barrel.fbx''])]
          @ map (\<lambda>d. (d, [])) (concat (map (\<lambda>e. case e of MakeDirs d \<Rightarrow> [d] | WriteFile q c \<Rightarrow> []) fs))
        else walk sample_host fs top)\<rparr>"







section \<open>Properties of the GUID resolver\<close>

lemma find_meta_file_by_guid_hit:
  "unity_texture_cache st (project_root @ '':'' @ guid) = Some r \<Longrightarrow>
   find_meta_file_by_guid h st project_root guid = (r, st)"
  by (simp add: find_meta_file_by_guid_def)

lemma find_meta_file_by_guid_stores:
  "find_meta_file_by_guid h st project_root guid = (r, st') \<Longrightarrow>
   unity_texture_cache st' (project_root @ '':'' @ guid) = Some r"
  by (auto simp: find_meta_file_by_guid_def Let_def print_def split: option.splits)

lemma find_meta_file_by_guid_miss_walks:
  "unity_texture_cache st (project_root @ '':'' @ guid) = None \<Longrightarrow>
   meta_walks (snd (find_meta_file_by_guid h st project_root guid)) = meta_walks st + 1"
  by (simp add: find_meta_file_by_guid_def Let_def print_def)

text \<open>
  C1. Two successive calls of \<open>find_meta_file_by_guid\<close> with the same project root and
  GUID return the same result. The first call leaves its result, found or absent, in the
  cache under the key of that root and GUID, and the second call is answered from the
  cache: it changes nothing in the converter, so it starts no directory walk (the walk
  counter stays where it was) and prints nothing. A first call that misses the cache
  does start exactly one walk.
\<close>

theorem find_meta_file_by_guid_memoized:
  "(case find_meta_file_by_guid h st project_root guid of
      (r1, st1) \<Rightarrow>
        unity_texture_cache st1 (project_root @ '':'' @ guid) = Some r1 \<and>
        find_meta_file_by_guid h st1 project_root guid = (r1, st1) \<and>
        meta_walks (snd (find_meta_file_by_guid h st1 project_root guid)) = meta_walks st1 \<and>
        (unity_texture_cache st (project_root @ '':'' @ guid) = None \<longrightarrow>
           meta_walks st1 = meta_walks st + 1))"
proof (cases "find_meta_file_by_guid h st project_root guid")
  case (Pair r1 st1)
  then have stored: "unity_texture_cache st1 (project_root @ '':'' @ guid) = Some r1"
    by (rule find_meta_file_by_guid_stores)
  then have again: "find_meta_file_by_guid h st1 project_root guid = (r1, st1)"
    by (rule find_meta_file_by_guid_hit)
  have walks: "unity_texture_cache st (project_root @ '':'' @ guid) = None \<longrightarrow>
      meta_walks st1 = meta_walks st + 1"
    using find_meta_file_by_guid_miss_walks [of st project_root guid h] Pair by simp
  from stored again walks Pair show ?thesis by simp
qed

theorem find_meta_file_by_guid_memoized_witness:
  "unity_texture_cache new_converter (''/unity'' @ '':'' @ sample_guid) = None \<and>
   (case find_meta_file_by_guid sample_host new_converter ''/unity'' sample_guid of
      (r1, st1) \<Rightarrow>
        r1 = Some ''/unity/Assets/Textures/Wood.psd'' \<and>
        find_meta_file_by_guid sample_host st1 ''/unity'' sample_guid = (r1, st1) \<and>
        meta_walks st1 = 1)"
proof -
  have miss: "unity_texture_cache new_converter (''/unity'' @ '':'' @ sample_guid) = None"
    by (simp add: new_converter_def)
  have found: "fst (find_meta_file_by_guid sample_host new_converter ''/unity'' sample_guid)
      = Some ''/unity/Assets/Textures/Wood.psd''"
    by code_simp
  have walks0: "meta_walks new_converter = 0"
    by (simp add: new_converter_def)
  show ?thesis
    using find_meta_file_by_guid_memoized [where h = sample_host and st = new_converter
        and project_root = "''/unity''" and guid = sample_guid]
      miss found walks0
    by (auto split: prod.splits)
qed

section \<open>Properties of the resource locator\<close>

lemma first_of_append:
  "first_of (xs @ ys) f = (case first_of xs f of Some r \<Rightarrow> Some r | None \<Rightarrow> first_of ys f)"
  by (cases xs) (simp_all add: first_of_def)

lemma match_files_first:
  "match_files h g b e root files =
   first_of [join h root f. f \<leftarrow> files, lower f = lower (b @ e)] (resource_id h g)"
  by (induction files) (simp_all add: first_of_def resource_id_def lower_def)

lemma match_tree_first:
  "match_tree h g b e tree =
   first_of [join h d f. (d, files) \<leftarrow> tree, f \<leftarrow> files, lower f = lower (b @ e)] (resource_id h g)"
proof (induction tree)
  case Nil
  show ?case by (simp add: first_of_def)
next
  case (Cons a tree)
  obtain d files where a: "a = (d, files)" by (cases a)
  show ?case
    unfolding a using Cons.IH
    by (simp add: first_of_append match_files_first split: option.split)
qed

lemma try_extensions_first:
  "try_extensions h fs g b exts =
   first_of [join h d f. e \<leftarrow> exts, (d, files) \<leftarrow> walk h fs g, f \<leftarrow> files, lower f = lower (b @ e)]
     (resource_id h g)"
proof (induction exts)
  case Nil
  show ?case by (simp add: first_of_def)
next
  case (Cons e exts)
  show ?case
    using Cons.IH by (simp add: first_of_append match_tree_first split: option.split)
qed

lemma replace_backslash_free: "CHR 0x5C \<notin> set (replace_backslash s)"
  by (auto simp: replace_backslash_def)

text \<open>
  C2. For a non-empty source path that is not yet in the locator's cache,
  \<open>find_godot_resource\<close> returns the first file, in the order of the candidate
  extensions and then of the directory walk, whose name equals base name plus extension
  when both are put in lower case. The candidate extensions are \<open>.png\<close> alone when the
  source path ends in \<open>.psd\<close> (compared in lower case, like the file names), and otherwise
  the original extension followed by \<open>.png\<close>. A result is \<open>res://\<close> followed by the path
  of the matched file relative to the target root, with every backslash replaced by a
  forward slash. If no file matches, the result is absent.
\<close>

theorem find_godot_resource_first_match:
  assumes "unity_path \<noteq> []"
    and "godot_resource_cache st (godot_project_root @ '':'' @ unity_path) = None"
  shows "fst (find_godot_resource h st godot_project_root unity_path) =
     (let base_name = fst (splitext h (basename h unity_path));
          extensions = (if suffix ''.psd'' (lower unity_path) then [''.png'']
                        else [snd (splitext h unity_path), ''.png'']);
          matches = [join h d f. ext \<leftarrow> extensions, (d, files) \<leftarrow> walk h (fs_log st) godot_project_root,
                       f \<leftarrow> files, lower f = lower (base_name @ ext)]
      in case matches of
           [] \<Rightarrow> None
         | full_path # _ \<Rightarrow>
             Some (''res://'' @ replace_backslash (relpath h full_path godot_project_root)))"
proof -
  let ?base = "fst (splitext h (basename h unity_path))"
  let ?exts = "if suffix ''.psd'' (lower unity_path) then [''.png'']
               else [snd (splitext h unity_path), ''.png'']"
  have "fst (find_godot_resource h st godot_project_root unity_path) =
        try_extensions h (fs_log st) godot_project_root ?base ?exts"
    using assms by (simp add: find_godot_resource_def Let_def)
  then show ?thesis
    by (simp only: try_extensions_first first_of_def resource_id_def Let_def)
qed

theorem find_godot_resource_first_match_witness:
  "''/unity/Assets/Textures/Wood.psd'' \<noteq> [] \<and>
   godot_resource_cache new_converter (''/godot'' @ '':'' @ ''/unity/Assets/Textures/Wood.psd'') = None \<and>
   fst (find_godot_resource sample_host new_converter ''/godot'' ''/unity/Assets/Textures/Wood.psd'')
     = Some ''res://Textures/Wood.PNG''"
proof -
  have nonempty: "''/unity/Assets/Textures/Wood.psd'' \<noteq> []"
    by simp
  have miss: "godot_resource_cache new_converter (''/godot'' @ '':'' @ ''/unity/Assets/Textures/Wood.psd'') = None"
    by (simp add: new_converter_def)
  have spec: "(let base_name = fst (splitext sample_host (basename sample_host ''/unity/Assets/Textures/Wood.psd''));
          extensions = (if suffix ''.psd'' (lower ''/unity/Assets/Textures/Wood.psd'') then [''.png'']
                        else [snd (splitext sample_host ''/unity/Assets/Textures/Wood.psd''), ''.png'']);
          matches = [join sample_host d f. ext \<leftarrow> extensions,
                       (d, files) \<leftarrow> walk sample_host (fs_log new_converter) ''/godot'',
                       f \<leftarrow> files, lower f = lower (base_name @ ext)]
      in case matches of
           [] \<Rightarrow> None
         | full_path # _ \<Rightarrow>
             Some (''res://'' @ replace_backslash (relpath sample_host full_path ''/godot'')))
     = Some ''res://Textures/Wood.PNG''"
    by code_simp
  show ?thesis
    using find_godot_resource_first_match [OF nonempty miss, where h = sample_host] spec nonempty miss
    by simp
qed

section \<open>Properties of the material translator\<close>

lemma translate_property_value:
  "translate_property h F m ur gr unity_prop godot_prop (tres_content, st) =
   (case property_value h F m ur gr unity_prop st of
      (None, st1) \<Rightarrow> (tres_content, st1)
    | (Some v, st1) \<Rightarrow> (tres_content @ assignment godot_prop v, st1))"
  by (simp add: translate_property_def property_value_def assignment_def Let_def
      split: option.split prod.split)

lemma translate_properties_entries:
  "translate_properties h F m ur gr table (tres_content, st) =
   (case property_entries h F m ur gr table st of
      (entries, st1) \<Rightarrow> (tres_content @ render_entries entries, st1))"
proof (induction table arbitrary: tres_content st)
  case Nil
  show ?case by (simp add: render_entries_def)
next
  case (Cons row table)
  obtain unity_prop godot_prop where row: "row = (unity_prop, godot_prop)" by (cases row)
  show ?case
    unfolding row
    by (simp add: translate_property_value Cons.IH render_entries_def
        split: prod.split option.split)
qed

lemma find_meta_file_by_guid_fs_log:
  "find_meta_file_by_guid h st ur g = (r, st1) \<Longrightarrow> fs_log st1 = fs_log st"
  by (auto simp: find_meta_file_by_guid_def Let_def print_def split: option.splits)

lemma find_godot_resource_fs_log:
  "find_godot_resource h st gr p = (r, st1) \<Longrightarrow> fs_log st1 = fs_log st"
  by (auto simp: find_godot_resource_def Let_def split: option.splits if_splits)

lemma property_value_fs_log:
  "property_value h F m ur gr unity_prop st = (v, st') \<Longrightarrow> fs_log st' = fs_log st"
proof (cases "textures m unity_prop")
  case None
  assume "property_value h F m ur gr unity_prop st = (v, st')"
  with None show ?thesis
    by (auto simp: property_value_def split: option.splits)
next
  case (Some tex_info)
  assume pv: "property_value h F m ur gr unity_prop st = (v, st')"
  obtain r st1 where meta: "find_meta_file_by_guid h st ur (ref_guid tex_info) = (r, st1)"
    by (cases "find_meta_file_by_guid h st ur (ref_guid tex_info)")
  then have log1: "fs_log st1 = fs_log st"
    by (rule find_meta_file_by_guid_fs_log)
  show ?thesis
  proof (cases "r = None \<or> r = Some []")
    case True
    with pv Some meta have "st' = st1"
      by (auto simp: property_value_def)
    with log1 show ?thesis by simp
  next
    case False
    then obtain unity_path where r: "r = Some unity_path" and ne: "unity_path \<noteq> []"
      by (cases r) auto
    obtain r2 st2 where res: "find_godot_resource h st1 gr unity_path = (r2, st2)"
      by (cases "find_godot_resource h st1 gr unity_path")
    then have log2: "fs_log st2 = fs_log st1"
      by (rule find_godot_resource_fs_log)
    from pv Some meta r ne res have "fs_log st' = fs_log st2"
      by (auto simp: property_value_def print_def split: option.splits if_splits)
    with log1 log2 show ?thesis by simp
  qed
qed

lemma property_entries_fs_log:
  "property_entries h F m ur gr table st = (entries, st') \<Longrightarrow> fs_log st' = fs_log st"
proof (induction table arbitrary: st entries st')
  case Nil
  then show ?case by simp
next
  case (Cons row table)
  obtain unity_prop godot_prop where row: "row = (unity_prop, godot_prop)" by (cases row)
  obtain v st1 where pv: "property_value h F m ur gr unity_prop st = (v, st1)"
    by (cases "property_value h F m ur gr unity_prop st")
  obtain es st2 where es: "property_entries h F m ur gr table st1 = (es, st2)"
    by (cases "property_entries h F m ur gr table st1")
  from Cons.prems have "st' = st2"
    by (simp add: row pv es)
  moreover have "fs_log st1 = fs_log st"
    using pv by (rule property_value_fs_log)
  moreover have "fs_log st2 = fs_log st1"
    using es by (rule Cons.IH)
  ultimately show ?case by simp
qed

lemma generate_godot_material_writes:
  "fs_log (generate_godot_material h F st m ur gr output_path) =
   fs_log st @ [MakeDirs (dirname h output_path),
                WriteFile output_path
                  (tres_header @ transparency_lines F m
                   @ render_entries (fst (property_entries h F m ur gr property_mappings st)))]"
proof -
  obtain entries st1 where es: "property_entries h F m ur gr property_mappings st = (entries, st1)"
    by (cases "property_entries h F m ur gr property_mappings st")
  then have "fs_log st1 = fs_log st"
    by (rule property_entries_fs_log)
  with es show ?thesis
    by (simp add: generate_godot_material_def translate_properties_entries)
qed

lemma property_value_unset:
  "\<not> has_value m unity_prop \<Longrightarrow> property_value h F m ur gr unity_prop st = (None, st)"
  by (simp add: property_value_def has_value_def)

lemma property_entries_keys:
  "(key, v) \<in> set (fst (property_entries h F m ur gr table st)) \<Longrightarrow>
   \<exists>unity_prop. (unity_prop, key) \<in> set table \<and> has_value m unity_prop"
proof (induction table arbitrary: st)
  case Nil
  then show ?case by simp
next
  case (Cons row table)
  obtain unity_prop godot_prop where row: "row = (unity_prop, godot_prop)" by (cases row)
  obtain pv st1 where pv: "property_value h F m ur gr unity_prop st = (pv, st1)"
    by (cases "property_value h F m ur gr unity_prop st")
  obtain es st2 where es: "property_entries h F m ur gr table st1 = (es, st2)"
    by (cases "property_entries h F m ur gr table st1")
  from Cons.prems have "(key, v) \<in> set (case pv of None \<Rightarrow> [] | Some text \<Rightarrow> [(godot_prop, text)])
      \<or> (key, v) \<in> set es"
    by (simp add: row pv es)
  then show ?case
  proof
    assume here: "(key, v) \<in> set (case pv of None \<Rightarrow> [] | Some text \<Rightarrow> [(godot_prop, text)])"
    then have "pv \<noteq> None" and "key = godot_prop"
      by (auto split: option.splits)
    with pv have "has_value m unity_prop"
      using property_value_unset [of m unity_prop h F ur gr st] by auto
    with \<open>key = godot_prop\<close> show ?thesis
      by (auto simp: row)
  next
    assume "(key, v) \<in> set es"
    with Cons.IH [of st1] es show ?thesis
      by (auto simp: row)
  qed
qed

lemma property_mappings_injective:
  "(u, key) \<in> set property_mappings \<Longrightarrow> (u', key) \<in> set property_mappings \<Longrightarrow> u = u'"
  by (auto simp: property_mappings_def)

lemma table_keys_not_transparency:
  "key \<in> snd ` set property_mappings \<Longrightarrow>
   key \<notin> {''transparency'', ''alpha_scissor_threshold'', ''alpha_hash_scale'', ''blend_mode''}"
  by (auto simp: property_mappings_def)

lemma entries_in_table:
  "(key, v) \<in> set (fst (property_entries h F m ur gr property_mappings st)) \<Longrightarrow>
   key \<in> snd ` set property_mappings"
  using property_entries_keys [of key v h F m ur gr property_mappings st] by force

text \<open>
  C3. The text that \<open>generate_godot_material\<close> writes is the header, then the
  transparency lines, then the assignments of the property loop. With \<open>_ALPHATEST_ON\<close> in
  the keyword string the transparency lines set \<open>transparency = 1\<close> and
  \<open>alpha_scissor_threshold\<close> to the \<open>_Cutoff\<close> float, or to 0.5 when the material has none
  (followed by the \<open>alpha_hash_scale\<close> line); otherwise, with \<open>_ALPHABLEND_ON\<close> or
  \<open>_ALPHAPREMULTIPLY_ON\<close> in it, they set \<open>transparency = 1\<close> and \<open>blend_mode = 1\<close>;
  otherwise there are none. The assignments of the loop are to properties of the table,
  never to a transparency field.
\<close>

theorem generate_godot_material_transparency:
  "\<exists>entries.
     fs_log (generate_godot_material h F st m ur gr output_path) =
       fs_log st @ [MakeDirs (dirname h output_path),
         WriteFile output_path
           (tres_header
            @ (if sublist ''_ALPHATEST_ON'' (shader_keywords m) then
                 ''transparency = 1'' @ newline
                 @ ''alpha_scissor_threshold = ''
                 @ float_str F (case floats m ''_Cutoff'' of
                                  Some cutoff \<Rightarrow> cutoff | None \<Rightarrow> float_of_str F ''0.5'') @ newline
                 @ ''alpha_hash_scale = 1.0'' @ newline
               else if sublist ''_ALPHABLEND_ON'' (shader_keywords m)
                       \<or> sublist ''_ALPHAPREMULTIPLY_ON'' (shader_keywords m) then
                 ''transparency = 1'' @ newline
                 @ ''blend_mode = 1'' @ newline
               else [])
            @ render_entries entries)] \<and>
     (\<forall>(key, v) \<in> set entries.
        key \<in> snd ` set property_mappings \<and>
        key \<notin> {''transparency'', ''alpha_scissor_threshold'', ''alpha_hash_scale'', ''blend_mode''})"
proof (intro exI conjI)
  show "fs_log (generate_godot_material h F st m ur gr output_path) =
       fs_log st @ [MakeDirs (dirname h output_path),
         WriteFile output_path
           (tres_header
            @ (if sublist ''_ALPHATEST_ON'' (shader_keywords m) then
                 ''transparency = 1'' @ newline
                 @ ''alpha_scissor_threshold = ''
                 @ float_str F (case floats m ''_Cutoff'' of
                                  Some cutoff \<Rightarrow> cutoff | None \<Rightarrow> float_of_str F ''0.5'') @ newline
                 @ ''alpha_hash_scale = 1.0'' @ newline
               else if sublist ''_ALPHABLEND_ON'' (shader_keywords m)
                       \<or> sublist ''_ALPHAPREMULTIPLY_ON'' (shader_keywords m) then
                 ''transparency = 1'' @ newline
                 @ ''blend_mode = 1'' @ newline
               else [])
            @ render_entries (fst (property_entries h F m ur gr property_mappings st)))]"
    unfolding generate_godot_material_writes transparency_lines_def Let_def by (rule refl)
  show "\<forall>(key, v) \<in> set (fst (property_entries h F m ur gr property_mappings st)).
        key \<in> snd ` set property_mappings \<and>
        key \<notin> {''transparency'', ''alpha_scissor_threshold'', ''alpha_hash_scale'', ''blend_mode''}"
  proof (intro ballI, clarify)
    fix key v
    assume "(key, v) \<in> set (fst (property_entries h F m ur gr property_mappings st))"
    then have "key \<in> snd ` set property_mappings"
      by (rule entries_in_table)
    then show "key \<in> snd ` set property_mappings \<and>
        key \<notin> {''transparency'', ''alpha_scissor_threshold'', ''alpha_hash_scale'', ''blend_mode''}"
      using table_keys_not_transparency by blast
  qed
qed

theorem generate_godot_material_transparency_witness:
  "(\<exists>entries.
     fs_log (generate_godot_material sample_host text_floats new_converter cutout_material
               ''/unity'' ''/godot'' ''/godot/Materials/Leaves.tres'') =
       [MakeDirs ''/godot/Materials'',
        WriteFile ''/godot/Materials/Leaves.tres''
          (tres_header @ ''transparency = 1'' @ newline @ ''alpha_scissor_threshold = 0.5'' @ newline
           @ ''alpha_hash_scale = 1.0'' @ newline @ render_entries entries)] \<and>
     (\<forall>(key, v) \<in> set entries.
        key \<in> snd ` set property_mappings \<and>
        key \<notin> {''transparency'', ''alpha_scissor_threshold'', ''alpha_hash_scale'', ''blend_mode''})) \<and>
   fs_log (generate_godot_material sample_host text_floats new_converter cutout_material
             ''/unity'' ''/godot'' ''/godot/Materials/Leaves.tres'') =
     [MakeDirs ''/godot/Materials'',
      WriteFile ''/godot/Materials/Leaves.tres''
        (tres_header @ ''transparency = 1'' @ newline @ ''alpha_scissor_threshold = 0.5'' @ newline
         @ ''alpha_hash_scale = 1.0'' @ newline @ ''metallic = 0.3'' @ newline)]"
proof -
  have flag: "sublist ''_ALPHATEST_ON'' (shader_keywords cutout_material)"
    by code_simp
  have cutoff: "floats cutout_material ''_Cutoff'' = None"
    by (simp add: cutout_material_def)
  have dir: "dirname sample_host ''/godot/Materials/Leaves.tres'' = ''/godot/Materials''"
    by code_simp
  have log: "fs_log new_converter = []"
    by (simp add: new_converter_def)
  have written: "fs_log (generate_godot_material sample_host text_floats new_converter cutout_material
             ''/unity'' ''/godot'' ''/godot/Materials/Leaves.tres'') =
     [MakeDirs ''/godot/Materials'',
      WriteFile ''/godot/Materials/Leaves.tres''
        (tres_header @ ''transparency = 1'' @ newline @ ''alpha_scissor_threshold = 0.5'' @ newline
         @ ''alpha_hash_scale = 1.0'' @ newline @ ''metallic = 0.3'' @ newline)]"
    by code_simp
  show ?thesis
    using generate_godot_material_transparency [where h = sample_host and F = text_floats
        and st = new_converter and m = cutout_material and ur = "''/unity''" and gr = "''/godot''"
        and output_path = "''/godot/Materials/Leaves.tres''"]
      written
    by (simp add: flag cutoff dir log text_floats_def)
qed



text \<open>
  C9. Whenever the keyword string contains \<open>_ALPHATEST_ON\<close>, the written text has the
  line \<open>alpha_hash_scale = 1.0\<close>, whatever else the material holds.
\<close>

theorem alpha_test_emits_alpha_hash_scale:
  assumes "sublist ''_ALPHATEST_ON'' (shader_keywords m)"
  shows "\<exists>before after.
     fs_log (generate_godot_material h F st m ur gr output_path) =
       fs_log st @ [MakeDirs (dirname h output_path),
         WriteFile output_path (before @ ''alpha_hash_scale = 1.0'' @ newline @ after)] \<and>
     suffix newline before"
proof (intro exI conjI)
  let ?before = "tres_header @ ''transparency = 1'' @ newline @ ''alpha_scissor_threshold = ''
       @ float_str F (case floats m ''_Cutoff'' of
                        Some cutoff \<Rightarrow> cutoff | None \<Rightarrow> float_of_str F ''0.5'') @ newline"
  let ?after = "render_entries (fst (property_entries h F m ur gr property_mappings st))"
  have lines: "transparency_lines F m =
      ''transparency = 1'' @ newline @ ''alpha_scissor_threshold = ''
       @ float_str F (case floats m ''_Cutoff'' of
                        Some cutoff \<Rightarrow> cutoff | None \<Rightarrow> float_of_str F ''0.5'') @ newline
       @ ''alpha_hash_scale = 1.0'' @ newline"
    using assms by (simp only: transparency_lines_def Let_def if_True)
  show "fs_log (generate_godot_material h F st m ur gr output_path) =
       fs_log st @ [MakeDirs (dirname h output_path),
         WriteFile output_path (?before @ ''alpha_hash_scale = 1.0'' @ newline @ ?after)]"
    unfolding generate_godot_material_writes lines by (simp only: append_assoc)
  show "suffix newline ?before"
    unfolding suffix_def by (metis append_assoc)
qed

theorem alpha_test_emits_alpha_hash_scale_witness:
  "sublist ''_ALPHATEST_ON'' (shader_keywords cutout_material) \<and>
   (\<exists>before after.
     fs_log (generate_godot_material sample_host text_floats new_converter cutout_material
               ''/unity'' ''/godot'' ''/godot/Materials/Leaves.tres'') =
       fs_log new_converter @ [MakeDirs (dirname sample_host ''/godot/Materials/Leaves.tres''),
         WriteFile ''/godot/Materials/Leaves.tres'' (before @ ''alpha_hash_scale = 1.0'' @ newline @ after)] \<and>
     suffix newline before)"
proof -
  have flag: "sublist ''_ALPHATEST_ON'' (shader_keywords cutout_material)"
    by code_simp
  show ?thesis
    using alpha_test_emits_alpha_hash_scale [OF flag, where h = sample_host and F = text_floats
        and st = new_converter and ur = "''/unity''" and gr = "''/godot''"
        and output_path = "''/godot/Materials/Leaves.tres''"] flag
    by (rule conjI [rotated])
qed

text \<open>
  C5. A property of the table for which the material has no texture, no colour and no
  float gets no assignment. The written text is the header, the transparency lines and
  the assignments of the loop; none of these is to that Godot property, and each of them
  is to a Godot property whose Unity property the material does set. The transparency
  lines are the only other fields: \<open>transparency\<close>, \<open>alpha_scissor_threshold\<close> and
  \<open>alpha_hash_scale = 1.0\<close> with \<open>_ALPHATEST_ON\<close>, \<open>transparency\<close> and \<open>blend_mode\<close> with
  an alpha-blend flag, and none otherwise. So the text does hold one field that is neither
  set by the material nor among the documented transparency fields: \<open>alpha_hash_scale\<close>.
\<close>

theorem only_set_properties_declared:
  assumes "(unity_prop, godot_prop) \<in> set property_mappings"
    and "textures m unity_prop = None"
    and "colors m unity_prop = None"
    and "floats m unity_prop = None"
  shows "\<exists>entries.
     fs_log (generate_godot_material h F st m ur gr output_path) =
       fs_log st @ [MakeDirs (dirname h output_path),
         WriteFile output_path
           (tres_header
            @ (if sublist ''_ALPHATEST_ON'' (shader_keywords m) then
                 ''transparency = 1'' @ newline
                 @ ''alpha_scissor_threshold = ''
                 @ float_str F (case floats m ''_Cutoff'' of
                                  Some cutoff \<Rightarrow> cutoff | None \<Rightarrow> float_of_str F ''0.5'') @ newline
                 @ ''alpha_hash_scale = 1.0'' @ newline
               else if sublist ''_ALPHABLEND_ON'' (shader_keywords m)
                       \<or> sublist ''_ALPHAPREMULTIPLY_ON'' (shader_keywords m) then
                 ''transparency = 1'' @ newline
                 @ ''blend_mode = 1'' @ newline
               else [])
            @ render_entries entries)] \<and>
     godot_prop \<notin> fst ` set entries \<and>
     (\<forall>(key, v) \<in> set entries.
        \<exists>u. (u, key) \<in> set property_mappings \<and>
            (textures m u \<noteq> None \<or> colors m u \<noteq> None \<or> floats m u \<noteq> None))"
proof (intro exI conjI)
  let ?entries = "fst (property_entries h F m ur gr property_mappings st)"
  show "fs_log (generate_godot_material h F st m ur gr output_path) =
       fs_log st @ [MakeDirs (dirname h output_path),
         WriteFile output_path
           (tres_header
            @ (if sublist ''_ALPHATEST_ON'' (shader_keywords m) then
                 ''transparency = 1'' @ newline
                 @ ''alpha_scissor_threshold = ''
                 @ float_str F (case floats m ''_Cutoff'' of
                                  Some cutoff \<Rightarrow> cutoff | None \<Rightarrow> float_of_str F ''0.5'') @ newline
                 @ ''alpha_hash_scale = 1.0'' @ newline
               else if sublist ''_ALPHABLEND_ON'' (shader_keywords m)
                       \<or> sublist ''_ALPHAPREMULTIPLY_ON'' (shader_keywords m) then
                 ''transparency = 1'' @ newline
                 @ ''blend_mode = 1'' @ newline
               else [])
            @ render_entries ?entries)]"
    unfolding generate_godot_material_writes transparency_lines_def Let_def by (rule refl)
  have unset: "\<not> has_value m unity_prop"
    using assms(2-4) by (simp add: has_value_def)
  show "godot_prop \<notin> fst ` set ?entries"
  proof
    assume "godot_prop \<in> fst ` set ?entries"
    then obtain v where "(godot_prop, v) \<in> set ?entries"
      by force
    then obtain u where u: "(u, godot_prop) \<in> set property_mappings" and "has_value m u"
      using property_entries_keys by blast
    from u assms(1) have "u = unity_prop"
      by (rule property_mappings_injective)
    with \<open>has_value m u\<close> unset show False by simp
  qed
  show "\<forall>(key, v) \<in> set ?entries.
        \<exists>u. (u, key) \<in> set property_mappings \<and>
            (textures m u \<noteq> None \<or> colors m u \<noteq> None \<or> floats m u \<noteq> None)"
  proof (intro ballI, clarify)
    fix key v
    assume "(key, v) \<in> set ?entries"
    then obtain u where "(u, key) \<in> set property_mappings" and "has_value m u"
      using property_entries_keys by blast
    then show "\<exists>u. (u, key) \<in> set property_mappings \<and>
            (textures m u \<noteq> None \<or> colors m u \<noteq> None \<or> floats m u \<noteq> None)"
      unfolding has_value_def by blast
  qed
qed

theorem only_set_properties_declared_witness:
  "(''_Color'', ''albedo_color'') \<in> set property_mappings \<and>
   textures cutout_material ''_Color'' = None \<and>
   colors cutout_material ''_Color'' = None \<and>
   floats cutout_material ''_Color'' = None \<and>
   (\<exists>entries.
     fs_log (generate_godot_material sample_host text_floats new_converter cutout_material
               ''/unity'' ''/godot'' ''/godot/Materials/Leaves.tres'') =
       [MakeDirs ''/godot/Materials'',
        WriteFile ''/godot/Materials/Leaves.tres''
          (tres_header @ ''transparency = 1'' @ newline @ ''alpha_scissor_threshold = 0.5'' @ newline
           @ ''alpha_hash_scale = 1.0'' @ newline @ render_entries entries)] \<and>
     ''albedo_color'' \<notin> fst ` set entries \<and>
     (\<forall>(key, v) \<in> set entries.
        \<exists>u. (u, key) \<in> set property_mappings \<and>
            (textures cutout_material u \<noteq> None \<or> colors cutout_material u \<noteq> None
             \<or> floats cutout_material u \<noteq> None)))"
proof -
  have row: "(''_Color'', ''albedo_color'') \<in> set property_mappings"
    by (simp add: property_mappings_def)
  have no_texture: "textures cutout_material ''_Color'' = None"
    by (simp add: cutout_material_def)
  have no_color: "colors cutout_material ''_Color'' = None"
    by (simp add: cutout_material_def)
  have no_float: "floats cutout_material ''_Color'' = None"
    by (simp add: cutout_material_def)
  have flag: "sublist ''_ALPHATEST_ON'' (shader_keywords cutout_material)"
    by code_simp
  have cutoff: "floats cutout_material ''_Cutoff'' = None"
    by (simp add: cutout_material_def)
  have dir: "dirname sample_host ''/godot/Materials/Leaves.tres'' = ''/godot/Materials''"
    by code_simp
  have log: "fs_log new_converter = []"
    by (simp add: new_converter_def)
  have half: "float_str text_floats (float_of_str text_floats ''0.5'') = ''0.5''"
    by (simp add: text_floats_def)
  note only_set_properties_declared [OF row no_texture no_color no_float, where h = sample_host
      and F = text_floats and st = new_converter and ur = "''/unity''" and gr = "''/godot''"
      and output_path = "''/godot/Materials/Leaves.tres''"]
  then have "\<exists>entries.
     fs_log (generate_godot_material sample_host text_floats new_converter cutout_material
               ''/unity'' ''/godot'' ''/godot/Materials/Leaves.tres'') =
       [MakeDirs ''/godot/Materials'',
        WriteFile ''/godot/Materials/Leaves.tres''
          (tres_header @ ''transparency = 1'' @ newline @ ''alpha_scissor_threshold = 0.5'' @ newline
           @ ''alpha_hash_scale = 1.0'' @ newline @ render_entries entries)] \<and>
     ''albedo_color'' \<notin> fst ` set entries \<and>
     (\<forall>(key, v) \<in> set entries.
        \<exists>u. (u, key) \<in> set property_mappings \<and>
            (textures cutout_material u \<noteq> None \<or> colors cutout_material u \<noteq> None
             \<or> floats cutout_material u \<noteq> None))"
    by (simp add: flag cutoff dir log half)
  with row no_texture no_color no_float show ?thesis
    by (intro conjI)
qed

text \<open>
  The alpha-tested sample material sets a metallic value and nothing else. The text
  written for it has the line \<open>alpha_hash_scale = 1.0\<close>: a field that the material does not
  set, that is not a Godot property of the table, and that is not one of the transparency
  fields the specification documents.
\<close>

theorem undocumented_default_written:
  "fs_log (generate_godot_material sample_host text_floats new_converter cutout_material
             ''/unity'' ''/godot'' ''/godot/Materials/Leaves.tres'') =
     [MakeDirs ''/godot/Materials'',
      WriteFile ''/godot/Materials/Leaves.tres''
        (tres_header @ ''transparency = 1'' @ newline @ ''alpha_scissor_threshold = 0.5'' @ newline
         @ ''alpha_hash_scale = 1.0'' @ newline @ ''metallic = 0.3'' @ newline)] \<and>
   ''alpha_hash_scale'' \<notin> set documented_transparency_fields \<and>
   ''alpha_hash_scale'' \<notin> set (map snd property_mappings)"
proof (intro conjI)
  show "fs_log (generate_godot_material sample_host text_floats new_converter cutout_material
             ''/unity'' ''/godot'' ''/godot/Materials/Leaves.tres'') =
     [MakeDirs ''/godot/Materials'',
      WriteFile ''/godot/Materials/Leaves.tres''
        (tres_header @ ''transparency = 1'' @ newline @ ''alpha_scissor_threshold = 0.5'' @ newline
         @ ''alpha_hash_scale = 1.0'' @ newline @ ''metallic = 0.3'' @ newline)]"
    by code_simp
  show "''alpha_hash_scale'' \<notin> set documented_transparency_fields"
    by (simp add: documented_transparency_fields_def)
  show "''alpha_hash_scale'' \<notin> set (map snd property_mappings)"
    by (simp add: property_mappings_def)
qed

lemma unresolved_texture_omitted:
  assumes "textures m unity_prop = Some tex_info"
    and "find_meta_file_by_guid h st ur (ref_guid tex_info) = (None, st1)"
  shows "translate_property h F m ur gr unity_prop godot_prop (tres_content, st) = (tres_content, st1)"
    and "stdout st1 = stdout st \<or> stdout st1 = stdout st @ [''Searching for GUID: '' @ ref_guid tex_info]"
proof -
  show "translate_property h F m ur gr unity_prop godot_prop (tres_content, st) = (tres_content, st1)"
    using assms by (simp add: translate_property_def)
  show "stdout st1 = stdout st \<or> stdout st1 = stdout st @ [''Searching for GUID: '' @ ref_guid tex_info]"
    using assms(2)
    by (cases "unity_texture_cache st (ur @ '':'' @ ref_guid tex_info)")
       (auto simp: find_meta_file_by_guid_def Let_def print_def)
qed

text \<open>
  C6. A material whose \<open>_MainTex\<close> texture has a GUID that no metadata file declares: the
  resolver returns absent, the property is left out and the metallic value is still
  translated, but the only line printed is the resolver's own search notice. No warning
  is printed, unlike in the neighbouring branch where the resource locator fails.
\<close>

theorem unresolved_guid_prints_no_warning:
  "fst (find_meta_file_by_guid sample_host new_converter ''/unity'' ''ffffffffffffffffffffffffffffffff'') = None \<and>
   stdout (generate_godot_material sample_host text_floats new_converter unresolved_material
             ''/unity'' ''/godot'' ''/godot/Materials/Crate.tres'') =
     [''Searching for GUID: ffffffffffffffffffffffffffffffff''] \<and>
   fs_log (generate_godot_material sample_host text_floats new_converter unresolved_material
             ''/unity'' ''/godot'' ''/godot/Materials/Crate.tres'') =
     [MakeDirs ''/godot/Materials'',
      WriteFile ''/godot/Materials/Crate.tres'' (tres_header @ ''metallic = 0.3'' @ newline)]"
  by code_simp


section \<open>Properties of the scene composer and the batch\<close>

lemma build_material_mappings_last:
  "build_material_mappings stem material_paths acc =
   (case filter (name_matches stem) material_paths of
      [] \<Rightarrow> acc
    | m # ms \<Rightarrow> AList.update stem (snd (last (m # ms))) acc)"
proof (induction material_paths arbitrary: acc)
  case Nil
  show ?case by simp
next
  case (Cons entry material_paths)
  obtain mat_name mat_path where entry: "entry = (mat_name, mat_path)" by (cases entry)
  show ?case
    unfolding entry
    by (simp add: Cons.IH name_matches_def split: list.split)
qed

lemma generate_godot_scene_content:
  assumes "generate_godot_scene h st fbx_path material_mappings unity_root godot_root
             unity_assets_dir godot_assets_dir output_dir = (Some output_path, st')"
  shows "\<exists>log preamble.
           fs_log st' = log @ [WriteFile output_path (preamble @ material_overrides material_mappings)]"
proof -
  define st2 where "st2 = st\<lparr>fs_log := fs_log st @
     [MakeDirs (join h godot_assets_dir ''Scenes''),
      MakeDirs (join h (join h godot_assets_dir ''Scenes'')
        (dirname h (case dropWhile (\<lambda>part. part \<noteq> ''Meshes'')
                           (split_sep h (relpath h fbx_path unity_assets_dir)) of
                      [] \<Rightarrow> relpath h fbx_path unity_assets_dir
                    | kept \<Rightarrow> join_all h kept)))]\<rparr>"
  obtain r st3 where fbx: "find_godot_fbx h st2 fbx_path unity_root godot_root unity_assets_dir
      godot_assets_dir = (r, st3)"
    by (cases "find_godot_fbx h st2 fbx_path unity_root godot_root unity_assets_dir godot_assets_dir")
  from assms fbx have "\<exists>text. fs_log st' = fs_log st3 @ [WriteFile output_path text] \<and>
      suffix (material_overrides material_mappings) text"
    by (cases r)
       (auto simp: generate_godot_scene_def Let_def st2_def split: if_splits
             intro!: suffix_ConsI suffix_appendI)
  then show ?thesis
    unfolding suffix_def by blast
qed

text \<open>
  C10. The mapping that \<open>convert_directory\<close> builds for a mesh is keyed by the stem of
  the mesh file: it is empty when no material name is, in lower case, part of the stem in
  lower case, and otherwise it is the single entry of the stem with the resource path of
  the last matching material, in the order of \<open>material_paths\<close>. So it never holds more
  than one entry, and a scene written with it ends in at most one override node, named
  after the mesh and carrying that last path.
\<close>

theorem material_mappings_single_entry:
  "build_material_mappings stem material_paths [] =
     (case filter (\<lambda>(mat_name, mat_path). sublist (lower mat_name) (lower stem)) material_paths of
        [] \<Rightarrow> []
      | m # ms \<Rightarrow> [(stem, snd (last (m # ms)))]) \<and>
   length (build_material_mappings stem material_paths []) \<le> 1 \<and>
   (\<forall>h st fbx_path unity_root godot_root unity_assets_dir godot_assets_dir output_dir output_path st'.
      generate_godot_scene h st fbx_path (build_material_mappings stem material_paths [])
        unity_root godot_root unity_assets_dir godot_assets_dir output_dir = (Some output_path, st') \<longrightarrow>
      (\<exists>log preamble.
         fs_log st' = log @ [WriteFile output_path
           (preamble @
            (case filter (\<lambda>(mat_name, mat_path). sublist (lower mat_name) (lower stem)) material_paths of
               [] \<Rightarrow> []
             | m # ms \<Rightarrow>
                 ''[node name='' @ dquote @ stem @ dquote @ '' parent='' @ dquote @ ''.'' @ dquote
                   @ '' index='' @ dquote @ ''0'' @ dquote @ '']'' @ newline
                 @ ''material_override = ExtResource('' @ dquote @ snd (last (m # ms)) @ dquote @ '')''
                 @ newline @ newline))]))"
proof -
  have same: "name_matches stem = (\<lambda>(mat_name, mat_path). sublist (lower mat_name) (lower stem))"
    by (auto simp: name_matches_def fun_eq_iff)
  have built: "build_material_mappings stem material_paths [] =
     (case filter (\<lambda>(mat_name, mat_path). sublist (lower mat_name) (lower stem)) material_paths of
        [] \<Rightarrow> []
      | m # ms \<Rightarrow> [(stem, snd (last (m # ms)))])"
    unfolding build_material_mappings_last same by (simp split: list.split)
  have short: "length (build_material_mappings stem material_paths []) \<le> 1"
    unfolding built by (simp split: list.split)
  have nodes: "material_overrides (build_material_mappings stem material_paths []) =
     (case filter (\<lambda>(mat_name, mat_path). sublist (lower mat_name) (lower stem)) material_paths of
        [] \<Rightarrow> []
      | m # ms \<Rightarrow>
          ''[node name='' @ dquote @ stem @ dquote @ '' parent='' @ dquote @ ''.'' @ dquote
            @ '' index='' @ dquote @ ''0'' @ dquote @ '']'' @ newline
          @ ''material_override = ExtResource('' @ dquote @ snd (last (m # ms)) @ dquote @ '')''
          @ newline @ newline)"
    unfolding built by (simp split: list.split)
  show ?thesis
  proof (intro conjI allI impI)
    show "build_material_mappings stem material_paths [] =
     (case filter (\<lambda>(mat_name, mat_path). sublist (lower mat_name) (lower stem)) material_paths of
        [] \<Rightarrow> []
      | m # ms \<Rightarrow> [(stem, snd (last (m # ms)))])"
      by (rule built)
    show "length (build_material_mappings stem material_paths []) \<le> 1"
      by (rule short)
  next
    fix h st fbx_path unity_root godot_root unity_assets_dir godot_assets_dir output_dir output_path st'
    assume "generate_godot_scene h st fbx_path (build_material_mappings stem material_paths [])
        unity_root godot_root unity_assets_dir godot_assets_dir output_dir = (Some output_path, st')"
    then have "\<exists>log preamble. fs_log st' = log @ [WriteFile output_path
         (preamble @ material_overrides (build_material_mappings stem material_paths []))]"
      by (rule generate_godot_scene_content)
    then show "\<exists>log preamble.
         fs_log st' = log @ [WriteFile output_path
           (preamble @
            (case filter (\<lambda>(mat_name, mat_path). sublist (lower mat_name) (lower stem)) material_paths of
               [] \<Rightarrow> []
             | m # ms \<Rightarrow>
                 ''[node name='' @ dquote @ stem @ dquote @ '' parent='' @ dquote @ ''.'' @ dquote
                   @ '' index='' @ dquote @ ''0'' @ dquote @ '']'' @ newline
                 @ ''material_override = ExtResource('' @ dquote @ snd (last (m # ms)) @ dquote @ '')''
                 @ newline @ newline))]"
      unfolding nodes .
  qed
qed

theorem material_mappings_single_entry_witness:
  "build_material_mappings ''Crate'' sample_material_paths [] = [(''Crate'', ''res://Materials/rat.tres'')] \<and>
   (\<exists>st'. generate_godot_scene mirrored_host new_converter ''/unity/Assets/Meshes/Props/Crate.fbx''
            (build_material_mappings ''Crate'' sample_material_paths [])
            ''/unity'' ''/godot'' ''/unity/Assets'' ''/godot/assets'' ''/godot/assets''
          = (Some ''/godot/assets/Scenes/Meshes/Props/Crate.tscn'', st') \<and>
      (\<exists>log preamble.
         fs_log st' = log @ [WriteFile ''/godot/assets/Scenes/Meshes/Props/Crate.tscn''
           (preamble
            @ ''[node name='' @ dquote @ ''Crate'' @ dquote @ '' parent='' @ dquote @ ''.'' @ dquote
            @ '' index='' @ dquote @ ''0'' @ dquote @ '']'' @ newline
            @ ''material_override = ExtResource('' @ dquote @ ''res://Materials/rat.tres'' @ dquote @ '')''
            @ newline @ newline)]))"
proof -
  have matching: "filter (\<lambda>(mat_name, mat_path). sublist (lower mat_name) (lower ''Crate''))
          sample_material_paths =
        [(''Crate'', ''res://Materials/Crate.tres''), (''rat'', ''res://Materials/rat.tres'')]"
    by code_simp
  note claim = material_mappings_single_entry [where stem = "''Crate''"
      and material_paths = sample_material_paths, unfolded matching, simplified]
  have built: "build_material_mappings ''Crate'' sample_material_paths [] =
      [(''Crate'', ''res://Materials/rat.tres'')]"
    using claim by simp
  have returned: "fst (generate_godot_scene mirrored_host new_converter ''/unity/Assets/Meshes/Props/Crate.fbx''
            (build_material_mappings ''Crate'' sample_material_paths [])
            ''/unity'' ''/godot'' ''/unity/Assets'' ''/godot/assets'' ''/godot/assets'')
          = Some ''/godot/assets/Scenes/Meshes/Props/Crate.tscn''"
    by code_simp
  then obtain st' where gen: "generate_godot_scene mirrored_host new_converter ''/unity/Assets/Meshes/Props/Crate.fbx''
            (build_material_mappings ''Crate'' sample_material_paths [])
            ''/unity'' ''/godot'' ''/unity/Assets'' ''/godot/assets'' ''/godot/assets''
          = (Some ''/godot/assets/Scenes/Meshes/Props/Crate.tscn'', st')"
    by (metis prod.collapse)
  with claim have "\<exists>log preamble.
         fs_log st' = log @ [WriteFile ''/godot/assets/Scenes/Meshes/Props/Crate.tscn''
           (preamble
            @ ''[node name='' @ dquote @ ''Crate'' @ dquote @ '' parent='' @ dquote @ ''.'' @ dquote
            @ '' index='' @ dquote @ ''0'' @ dquote @ '']'' @ newline
            @ ''material_override = ExtResource('' @ dquote @ ''res://Materials/rat.tres'' @ dquote @ '')''
            @ newline @ newline)]"
    by simp
  with built gen show ?thesis by blast
qed

lemma search_fbx_none:
  "(\<And>root files. (root, files) \<in> set tree \<Longrightarrow> fbx_name \<notin> set files) \<Longrightarrow>
   search_fbx tree fbx_name = None"
proof (induction tree)
  case Nil
  show ?case by simp
next
  case (Cons entry tree)
  obtain root files where entry: "entry = (root, files)" by (cases entry)
  have "(root, files) \<in> set (entry # tree)"
    by (simp add: entry)
  then have here: "fbx_name \<notin> set files"
    by (rule Cons.prems)
  have "\<And>root files. (root, files) \<in> set tree \<Longrightarrow> fbx_name \<notin> set files"
  proof -
    fix root' files'
    assume "(root', files') \<in> set tree"
    then have "(root', files') \<in> set (entry # tree)" by simp
    then show "fbx_name \<notin> set files'" by (rule Cons.prems)
  qed
  then have "search_fbx tree fbx_name = None"
    by (rule Cons.IH)
  with here show ?case
    by (simp add: entry)
qed

lemma find_godot_fbx_none:
  assumes "\<not> path_exists h (fs_log st) (join h godot_assets_dir (relpath h unity_fbx_path unity_assets_dir))"
    and "\<And>root files. (root, files) \<in> set (walk h (fs_log st) godot_assets_dir) \<Longrightarrow>
           basename h unity_fbx_path \<notin> set files"
  shows "fst (find_godot_fbx h st unity_fbx_path unity_root godot_root unity_assets_dir godot_assets_dir) = None"
    and "fs_log (snd (find_godot_fbx h st unity_fbx_path unity_root godot_root unity_assets_dir godot_assets_dir))
         = fs_log st"
proof -
  have none: "search_fbx (walk h (fs_log st) godot_assets_dir) (basename h unity_fbx_path) = None"
    using assms(2) by (rule search_fbx_none)
  show "fst (find_godot_fbx h st unity_fbx_path unity_root godot_root unity_assets_dir godot_assets_dir) = None"
    using assms(1) none by (simp add: find_godot_fbx_def Let_def print_def)
  show "fs_log (snd (find_godot_fbx h st unity_fbx_path unity_root godot_root unity_assets_dir godot_assets_dir))
         = fs_log st"
    using assms(1) none by (simp add: find_godot_fbx_def Let_def print_def)
qed

lemma generate_godot_scene_absent:
  assumes "\<not> path_exists h (fs_log st @ map MakeDirs (scene_dirs h fbx_path unity_assets_dir godot_assets_dir))
                      (join h godot_assets_dir (relpath h fbx_path unity_assets_dir))"
    and "\<And>root files.
           (root, files) \<in> set (walk h (fs_log st @ map MakeDirs (scene_dirs h fbx_path unity_assets_dir godot_assets_dir))
                                godot_assets_dir) \<Longrightarrow>
           basename h fbx_path \<notin> set files"
  shows "fst (generate_godot_scene h st fbx_path material_mappings unity_root godot_root
                    unity_assets_dir godot_assets_dir output_dir) = None"
    and "fs_log (snd (generate_godot_scene h st fbx_path material_mappings unity_root godot_root
                    unity_assets_dir godot_assets_dir output_dir))
         = fs_log st @ map MakeDirs (scene_dirs h fbx_path unity_assets_dir godot_assets_dir)"
proof -
  define scenes_dir where "scenes_dir = join h godot_assets_dir ''Scenes''"
  define relevant_path where "relevant_path =
     (case dropWhile (\<lambda>part. part \<noteq> ''Meshes'') (split_sep h (relpath h fbx_path unity_assets_dir)) of
        [] \<Rightarrow> relpath h fbx_path unity_assets_dir | kept \<Rightarrow> join_all h kept)"
  define scene_subdir where "scene_subdir = join h scenes_dir (dirname h relevant_path)"
  define st2 where "st2 = st\<lparr>fs_log := fs_log st @ [MakeDirs scenes_dir, MakeDirs scene_subdir]\<rparr>"
  have dirs: "scene_dirs h fbx_path unity_assets_dir godot_assets_dir = [scenes_dir, scene_subdir]"
    by (simp add: scene_dirs_def scenes_dir_def relevant_path_def scene_subdir_def)
  have log2: "fs_log st2 = fs_log st @ map MakeDirs (scene_dirs h fbx_path unity_assets_dir godot_assets_dir)"
    by (simp add: st2_def dirs)
  obtain r st3 where fbx: "find_godot_fbx h st2 fbx_path unity_root godot_root unity_assets_dir godot_assets_dir = (r, st3)"
    by (cases "find_godot_fbx h st2 fbx_path unity_root godot_root unity_assets_dir godot_assets_dir")
  have "\<not> path_exists h (fs_log st2) (join h godot_assets_dir (relpath h fbx_path unity_assets_dir))"
    unfolding log2 by (rule assms(1))
  moreover have "\<And>root files. (root, files) \<in> set (walk h (fs_log st2) godot_assets_dir) \<Longrightarrow>
           basename h fbx_path \<notin> set files"
    unfolding log2 by (rule assms(2))
  ultimately have "fst (find_godot_fbx h st2 fbx_path unity_root godot_root unity_assets_dir godot_assets_dir) = None
      \<and> fs_log (snd (find_godot_fbx h st2 fbx_path unity_root godot_root unity_assets_dir godot_assets_dir)) = fs_log st2"
    using find_godot_fbx_none [of h st2 godot_assets_dir fbx_path unity_assets_dir unity_root godot_root]
    by (intro conjI) blast+
  with fbx have r: "r = None" and log3: "fs_log st3 = fs_log st2"
    by simp_all
  have gen: "generate_godot_scene h st fbx_path material_mappings unity_root godot_root
                    unity_assets_dir godot_assets_dir output_dir =
             (None, print (''Warning: Could not find corresponding FBX in Godot project for '' @ fbx_path) st3)"
    using fbx r
    by (simp add: generate_godot_scene_def Let_def scenes_dir_def
        relevant_path_def scene_subdir_def st2_def)
  show "fst (generate_godot_scene h st fbx_path material_mappings unity_root godot_root
                    unity_assets_dir godot_assets_dir output_dir) = None"
    unfolding gen by simp
  show "fs_log (snd (generate_godot_scene h st fbx_path material_mappings unity_root godot_root
                    unity_assets_dir godot_assets_dir output_dir))
         = fs_log st @ map MakeDirs (scene_dirs h fbx_path unity_assets_dir godot_assets_dir)"
    unfolding gen using log3 log2 by (simp add: print_def)
qed

text \<open>
  C8. Take the file system as it is when \<open>generate_godot_scene\<close> looks for the mesh,
  that is, after it has created the scenes directory and the subdirectory of the scene.
  If then the direct mapping of the mesh into the target assets directory does not exist
  and no directory that the walk of the target assets directory yields holds a file of
  the mesh's name, \<open>generate_godot_scene\<close> returns absent, and its file-system effects are
  those two directory creations and nothing else: no scene file is written. The loop of
  \<open>convert_directory\<close> then goes on with the remaining mesh files.
\<close>

theorem missing_mesh_skipped:
  assumes "\<not> path_exists h (fs_log st @ map MakeDirs (scene_dirs h fbx_file input_dir output_dir))
                 (join h output_dir (relpath h fbx_file input_dir))"
    and "\<forall>(root, files) \<in> set (walk h (fs_log st @ map MakeDirs (scene_dirs h fbx_file input_dir output_dir))
                                   output_dir).
           basename h fbx_file \<notin> set files"
  shows "fst (generate_godot_scene h st fbx_file material_mappings unity_project_root
                godot_project_root input_dir output_dir output_dir) = None \<and>
         fs_log (snd (generate_godot_scene h st fbx_file material_mappings unity_project_root
                godot_project_root input_dir output_dir output_dir))
           = fs_log st @ map MakeDirs (scene_dirs h fbx_file input_dir output_dir) \<and>
         (\<exists>st'.
            create_scenes h material_paths input_dir output_dir unity_project_root godot_project_root
              (fbx_file # fbx_files) st =
            create_scenes h material_paths input_dir output_dir unity_project_root godot_project_root
              fbx_files st' \<and>
            fs_log st' = fs_log st @ map MakeDirs (scene_dirs h fbx_file input_dir output_dir))"
proof (intro conjI)
  let ?log = "fs_log st @ map MakeDirs (scene_dirs h fbx_file input_dir output_dir)"
  have search: "\<And>root files. (root, files) \<in> set (walk h ?log output_dir) \<Longrightarrow>
      basename h fbx_file \<notin> set files"
    using assms(2) by blast
  show "fst (generate_godot_scene h st fbx_file material_mappings unity_project_root
                godot_project_root input_dir output_dir output_dir) = None"
    using assms(1) search by (rule generate_godot_scene_absent(1))
  show "fs_log (snd (generate_godot_scene h st fbx_file material_mappings unity_project_root
                godot_project_root input_dir output_dir output_dir)) = ?log"
    using assms(1) search by (rule generate_godot_scene_absent(2))
  define st1 where "st1 = print (newline @ ''Processing '' @ path_name h fbx_file) st"
  define mm where "mm = build_material_mappings (path_stem h fbx_file) material_paths []"
  have log1: "fs_log st1 = fs_log st"
    by (simp add: st1_def print_def)
  obtain r st2 where gen: "generate_godot_scene h st1 fbx_file mm unity_project_root
                   godot_project_root input_dir output_dir output_dir = (r, st2)"
    by (cases "generate_godot_scene h st1 fbx_file mm unity_project_root
                   godot_project_root input_dir output_dir output_dir")
  have direct1: "\<not> path_exists h (fs_log st1 @ map MakeDirs (scene_dirs h fbx_file input_dir output_dir))
                 (join h output_dir (relpath h fbx_file input_dir))"
    unfolding log1 by (rule assms(1))
  have search1: "\<And>root files.
      (root, files) \<in> set (walk h (fs_log st1 @ map MakeDirs (scene_dirs h fbx_file input_dir output_dir))
                           output_dir) \<Longrightarrow>
      basename h fbx_file \<notin> set files"
    unfolding log1 by (rule search)
  have "fst (generate_godot_scene h st1 fbx_file mm unity_project_root
                godot_project_root input_dir output_dir output_dir) = None"
    using direct1 search1 by (rule generate_godot_scene_absent(1))
  moreover have "fs_log (snd (generate_godot_scene h st1 fbx_file mm unity_project_root
                godot_project_root input_dir output_dir output_dir))
        = fs_log st1 @ map MakeDirs (scene_dirs h fbx_file input_dir output_dir)"
    using direct1 search1 by (rule generate_godot_scene_absent(2))
  ultimately have r: "r = None" and log2: "fs_log st2 = ?log"
    using gen log1 by simp_all
  have "create_scenes h material_paths input_dir output_dir unity_project_root godot_project_root
              (fbx_file # fbx_files) st =
        create_scenes h material_paths input_dir output_dir unity_project_root godot_project_root
              fbx_files st2"
    using gen r by (simp add: Let_def st1_def mm_def)
  with log2 show "\<exists>st'.
            create_scenes h material_paths input_dir output_dir unity_project_root godot_project_root
              (fbx_file # fbx_files) st =
            create_scenes h material_paths input_dir output_dir unity_project_root godot_project_root
              fbx_files st' \<and>
            fs_log st' = ?log"
    by blast
qed

theorem missing_mesh_skipped_witness:
  "scene_dirs tracking_host ''/unity/Assets/Meshes/Props/Crate.fbx'' ''/unity/Assets'' ''/godot/assets''
     = [''/godot/assets/Scenes'', ''/godot/assets/Scenes/Meshes/Props''] \<and>
   join tracking_host ''/godot/assets''
     (relpath tracking_host ''/unity/Assets/Meshes/Props/Crate.fbx'' ''/unity/Assets'')
     = ''/godot/assets/Meshes/Props/Crate.fbx'' \<and>
   \<not> path_exists tracking_host
       [MakeDirs ''/godot/assets/Scenes'', MakeDirs ''/godot/assets/Scenes/Meshes/Props'']
       ''/godot/assets/Meshes/Props/Crate.fbx'' \<and>
   path_exists tracking_host
       [MakeDirs ''/godot/assets/Scenes'', MakeDirs ''/godot/assets/Scenes/Meshes/Props'']
       ''/godot/assets/Scenes/Meshes'' \<and>
   walk tracking_host
       [MakeDirs ''/godot/assets/Scenes'', MakeDirs ''/godot/assets/Scenes/Meshes/Props'']
       ''/godot/assets''
     = [(''/godot/assets'', []), (''/godot/assets/Props'', [''Barrel.fbx'']),
        (''/godot/assets/Scenes'', []), (''/godot/assets/Scenes/Meshes/Props'', [])] \<and>
   fst (generate_godot_scene tracking_host new_converter ''/unity/Assets/Meshes/Props/Crate.fbx'' []
          ''/unity'' ''/godot'' ''/unity/Assets'' ''/godot/assets'' ''/godot/assets'') = None \<and>
   fs_log (snd (generate_godot_scene tracking_host new_converter ''/unity/Assets/Meshes/Props/Crate.fbx'' []
          ''/unity'' ''/godot'' ''/unity/Assets'' ''/godot/assets'' ''/godot/assets''))
     = [MakeDirs ''/godot/assets/Scenes'', MakeDirs ''/godot/assets/Scenes/Meshes/Props''] \<and>
   (\<exists>st'.
      create_scenes tracking_host [] ''/unity/Assets'' ''/godot/assets'' ''/unity'' ''/godot''
        [''/unity/Assets/Meshes/Props/Crate.fbx''] new_converter =
      create_scenes tracking_host [] ''/unity/Assets'' ''/godot/assets'' ''/unity'' ''/godot'' [] st' \<and>
      fs_log st' = [MakeDirs ''/godot/assets/Scenes'', MakeDirs ''/godot/assets/Scenes/Meshes/Props''])"
proof -
  let ?log = "[MakeDirs ''/godot/assets/Scenes'', MakeDirs ''/godot/assets/Scenes/Meshes/Props'']"
  have dirs: "scene_dirs tracking_host ''/unity/Assets/Meshes/Props/Crate.fbx'' ''/unity/Assets'' ''/godot/assets''
     = [''/godot/assets/Scenes'', ''/godot/assets/Scenes/Meshes/Props'']"
    by code_simp
  have target: "join tracking_host ''/godot/assets''
     (relpath tracking_host ''/unity/Assets/Meshes/Props/Crate.fbx'' ''/unity/Assets'')
     = ''/godot/assets/Meshes/Props/Crate.fbx''"
    by code_simp
  have name: "basename tracking_host ''/unity/Assets/Meshes/Props/Crate.fbx'' = ''Crate.fbx''"
    by code_simp
  have absent: "\<not> path_exists tracking_host ?log ''/godot/assets/Meshes/Props/Crate.fbx''"
    by code_simp
  have made: "path_exists tracking_host ?log ''/godot/assets/Scenes/Meshes''"
    by code_simp
  have tree: "walk tracking_host ?log ''/godot/assets''
     = [(''/godot/assets'', []), (''/godot/assets/Props'', [''Barrel.fbx'']),
        (''/godot/assets/Scenes'', []), (''/godot/assets/Scenes/Meshes/Props'', [])]"
    by code_simp
  have log0: "fs_log new_converter = []"
    by (simp add: new_converter_def)
  have direct: "\<not> path_exists tracking_host
      (fs_log new_converter @ map MakeDirs (scene_dirs tracking_host ''/unity/Assets/Meshes/Props/Crate.fbx''
           ''/unity/Assets'' ''/godot/assets''))
      (join tracking_host ''/godot/assets''
         (relpath tracking_host ''/unity/Assets/Meshes/Props/Crate.fbx'' ''/unity/Assets''))"
    unfolding dirs target log0 using absent by simp
  have search: "\<forall>(root, files) \<in> set (walk tracking_host
      (fs_log new_converter @ map MakeDirs (scene_dirs tracking_host ''/unity/Assets/Meshes/Props/Crate.fbx''
           ''/unity/Assets'' ''/godot/assets'')) ''/godot/assets'').
      basename tracking_host ''/unity/Assets/Meshes/Props/Crate.fbx'' \<notin> set files"
    unfolding dirs log0 name using tree by simp
  note claim = missing_mesh_skipped [OF direct search, where material_mappings = "[]"
      and unity_project_root = "''/unity''" and godot_project_root = "''/godot''"
      and material_paths = "[]" and fbx_files = "[]", unfolded dirs log0 append_Nil list.map]
  from claim have "fst (generate_godot_scene tracking_host new_converter ''/unity/Assets/Meshes/Props/Crate.fbx'' []
          ''/unity'' ''/godot'' ''/unity/Assets'' ''/godot/assets'' ''/godot/assets'') = None"
    by (rule conjunct1)
  moreover from claim have "fs_log (snd (generate_godot_scene tracking_host new_converter ''/unity/Assets/Meshes/Props/Crate.fbx'' []
          ''/unity'' ''/godot'' ''/unity/Assets'' ''/godot/assets'' ''/godot/assets'')) = ?log"
    by (rule conjunct1 [OF conjunct2])
  moreover from claim have "\<exists>st'.
      create_scenes tracking_host [] ''/unity/Assets'' ''/godot/assets'' ''/unity'' ''/godot''
        [''/unity/Assets/Meshes/Props/Crate.fbx''] new_converter =
      create_scenes tracking_host [] ''/unity/Assets'' ''/godot/assets'' ''/unity'' ''/godot'' [] st' \<and>
      fs_log st' = ?log"
    by (rule conjunct2 [OF conjunct2])
  ultimately show ?thesis
    using dirs target absent made tree by (intro conjI)
qed

section \<open>Properties of the material analyzer\<close>












lemma in_class_space [simp]: "in_class [CSpace] c = is_space c"
  by (simp add: in_class_def)

lemma space_list [simp]: "list_all (in_class [CSpace]) ws = list_all is_space ws"
  by (induction ws) simp_all

lemma in_class_word [simp]: "in_class [CWord] c = in_cset CWord c"
  by (simp add: in_class_def)

lemma word_list [simp]: "list_all (in_class [CWord]) w = list_all (in_cset CWord) w"
  by (induction w) simp_all



lemma ends_class_Cons: "ends_class cs (c # s) = (\<not> in_class cs c)"
  by (simp add: ends_class_def)

lemma ends_class_append: "run \<noteq> [] \<Longrightarrow> ends_class cs (run @ s) = (\<not> in_class cs (hd run))"
  by (cases run) (simp_all add: ends_class_def)



lemma colon_not_word: "\<not> in_cset CWord CHR '':''"
  by (simp add: in_range_def)


























lemma analyze_unity_material_floats:
  "analyze_unity_material h F fs mat_path =
     (case parse_floats F (material_text h fs mat_path) of
        Inl e \<Rightarrow> Inl e
      | Inr float_properties \<Rightarrow>
          (case analyze_unity_material h F fs mat_path of
             Inl e \<Rightarrow> Inl e
           | Inr m \<Rightarrow> Inr (m\<lparr>floats := float_properties\<rparr>)))"
  by (simp add: analyze_unity_material_def material_text_def Let_def split: sum.split)







end
